theory Spec2Isabelle
  imports Main
begin

section \<open>Data model of the frame dispatch\<close>

text \<open>
  The dispatch of \<^verbatim>\<open>torch/csrc/dynamo/eval_frame_cpp.cpp\<close> compares \<^verbatim>\<open>PyObject*\<close>
  values by identity against a handful of singletons. A Python object is one of these
  singletons or some other object, named by a number; a nullable pointer is a
  \<open>pyobj option\<close>, with \<open>None\<close> for \<^verbatim>\<open>nullptr\<close>.
\<close>

datatype pyobj =
    Py_None
  | Py_False
  | skip_code_recursive_flag
  | cache_limit_hit_flag
  | PyObj nat

datatype FrameAction = DEFAULT | SKIP | RUN_ONLY

record FrameExecStrategy =
  cur_action :: FrameAction
  recursive_action :: FrameAction

text \<open>
  A cache entry pairs a guard with a specialized routine and its trace label; the
  backend that produced it is kept beside them, as \<^verbatim>\<open>create_cache_entry\<close> receives it.
\<close>

record CacheEntry =
  ce_guard :: pyobj
  ce_code :: pyobj
  ce_trace_annotation :: string
  ce_backend :: pyobj

record ExtraState =
  cache_entry_list :: "CacheEntry list"
  frame_state :: "(string \<times> pyobj) list"
  strategy :: FrameExecStrategy

text \<open>
  A call frame: the routine identity (\<^verbatim>\<open>F_CODE(frame)\<close>) and the local bindings that
  \<^verbatim>\<open>FrameLocalsMapping\<close> snapshots.
\<close>

record frame =
  f_code :: nat
  f_locals :: "pyobj list"

text \<open>
  Every call the dispatch makes to a collaborator, and every write of the process-wide
  callback register, is logged in order. Guard lookups and executions log the register
  value they run under, which is the callback that nested invocations see.
\<close>

datatype event =
    CallbackSet pyobj
  | Lookup nat pyobj
  | CallCallback pyobj nat
  | EvalDefault nat pyobj
  | EvalCustom nat pyobj string pyobj
  | ClearFrame nat

datatype pyexc = PyExc_RuntimeError

record world =
  eval_frame_callback :: pyobj
  extra_states :: "nat \<Rightarrow> ExtraState option"
  py_err :: "(pyexc \<times> string) option"
  events :: "event list"

text \<open>
  The collaborators outside the dispatch are parameters. Guard lookup returns the
  pointer it stores in \<^verbatim>\<open>maybe_cached_code\<close> (\<open>None\<close> when guard evaluation raised,
  \<open>Some Py_None\<close> on a miss) together with the string it leaves in
  \<^verbatim>\<open>trace_annotation\<close>. The two executions
  return the frame's result and the value they leave in the callback register, since the
  executed routine may itself set the register. \<^verbatim>\<open>is_skip_guard_eval_unsafe\<close> is a global
  the dispatch only reads. No collaborator writes the store of Extra States: the spec
  has it mutated by the dispatch alone, and resets from outside are out of its scope.
\<close>

record env =
  is_skip_guard_eval_unsafe :: bool
  get_backend :: "pyobj \<Rightarrow> pyobj"
  lookup :: "ExtraState \<Rightarrow> pyobj list \<Rightarrow> pyobj \<Rightarrow> bool \<Rightarrow> pyobj option \<times> string"
  dynamo_call_callback ::
    "pyobj \<Rightarrow> frame \<Rightarrow> pyobj list \<Rightarrow> CacheEntry list \<Rightarrow> (string \<times> pyobj) list \<Rightarrow> pyobj option"
  dynamo_eval_frame_default :: "frame \<Rightarrow> bool \<Rightarrow> pyobj \<Rightarrow> pyobj option \<times> pyobj"
  dynamo_eval_custom_code ::
    "frame \<Rightarrow> pyobj \<Rightarrow> string \<Rightarrow> bool \<Rightarrow> pyobj \<Rightarrow> pyobj option \<times> pyobj"
  guarded_code_code :: "pyobj \<Rightarrow> pyobj"
  guarded_code_trace_annotation :: "pyobj \<Rightarrow> string"

section \<open>Helpers declared outside the source file\<close>

text \<open>
  The \<^verbatim>\<open>ExtraState*\<close> of the source is the record stored in the routine's slot, so a
  write through the pointer is a write to the slot of that routine; the helpers that
  write take the routine identity.
\<close>

text \<open>
  Modelled from the spec: \<^verbatim>\<open>eval_frame_callback_set\<close> is not in the source file. The spec
  describes a process-wide active callback register with get/set semantics.
\<close>

definition eval_frame_callback_set :: "pyobj \<Rightarrow> world \<Rightarrow> world" where
  "eval_frame_callback_set cb w =
     w\<lparr>eval_frame_callback := cb, events := events w @ [CallbackSet cb]\<rparr>"

text \<open>
  Modelled from the spec: \<^verbatim>\<open>get_extra_state\<close> is not in the source file. The spec attaches
  at most one Extra State to a routine identity, in the routine's storage slot.
\<close>

definition get_extra_state :: "nat \<Rightarrow> world \<Rightarrow> ExtraState option" where
  "get_extra_state c w = extra_states w c"

text \<open>
  Modelled from the spec: the constructor of the Extra State is not in the source file.
  The spec starts the Execution Strategy at \<open>(DEFAULT, DEFAULT)\<close>; a fresh state has no
  cache entries and an empty frame state.
\<close>

definition initial_extra_state :: ExtraState where
  "initial_extra_state =
     \<lparr>cache_entry_list = [], frame_state = [],
      strategy = \<lparr>cur_action = DEFAULT, recursive_action = DEFAULT\<rparr>\<rparr>"

text \<open>
  Modelled from the spec: \<^verbatim>\<open>init_and_set_extra_state\<close> is not in the source file. The spec
  creates the Extra State lazily on first interception and attaches it to the routine.
\<close>

definition init_and_set_extra_state :: "nat \<Rightarrow> world \<Rightarrow> ExtraState \<times> world" where
  "init_and_set_extra_state c w =
     (initial_extra_state, w\<lparr>extra_states := (extra_states w)(c \<mapsto> initial_extra_state)\<rparr>)"

text \<open>
  Modelled from the spec: \<^verbatim>\<open>extra_state_get_exec_strategy\<close> is not in the source file. The
  spec makes the Execution Strategy a field of the Extra State.
\<close>

definition extra_state_get_exec_strategy :: "ExtraState \<Rightarrow> FrameExecStrategy" where
  "extra_state_get_exec_strategy extra = strategy extra"

text \<open>
  Modelled from the spec: \<^verbatim>\<open>extra_state_set_exec_strategy\<close> is not in the source file. The
  spec has the dispatch overwrite the Execution Strategy of the routine's Extra State.
\<close>

definition extra_state_set_exec_strategy :: "nat \<Rightarrow> FrameExecStrategy \<Rightarrow> world \<Rightarrow> world" where
  "extra_state_set_exec_strategy c s w =
     w\<lparr>extra_states := (extra_states w)(c := map_option (\<lambda>e. e\<lparr>strategy := s\<rparr>) (extra_states w c))\<rparr>"

text \<open>
  Modelled from the spec: \<^verbatim>\<open>extract_cache_entry\<close> is not in the source file. The spec hands
  the compiler callback the routine's cache-entry list.
\<close>

definition extract_cache_entry :: "ExtraState \<Rightarrow> CacheEntry list" where
  "extract_cache_entry extra = cache_entry_list extra"

text \<open>
  Modelled from the spec: \<^verbatim>\<open>extract_frame_state\<close> is not in the source file. The spec hands
  the compiler callback the routine's frame state, opaque to the dispatch.
\<close>

definition extract_frame_state :: "ExtraState \<Rightarrow> (string \<times> pyobj) list" where
  "extract_frame_state extra = frame_state extra"

text \<open>
  Modelled from the spec: the constructor of a Cache Entry is not in the source file. The
  spec pairs a guard, a specialized routine and a trace label; the compiler's result
  object carries the guard, and its routine and label are read off it by the two
  parameters of the environment.
\<close>

definition new_cache_entry :: "env \<Rightarrow> pyobj \<Rightarrow> pyobj \<Rightarrow> CacheEntry" where
  "new_cache_entry en callback_result backend =
     \<lparr>ce_guard = callback_result,
      ce_code = guarded_code_code en callback_result,
      ce_trace_annotation = guarded_code_trace_annotation en callback_result,
      ce_backend = backend\<rparr>"

text \<open>
  Modelled from the spec: \<^verbatim>\<open>create_cache_entry\<close> is not in the source file. The spec keeps
  the cache entries of a routine most-recently-installed first and never changes or
  removes one, so the new entry goes in front of the list.
\<close>

definition create_cache_entry :: "env \<Rightarrow> nat \<Rightarrow> pyobj \<Rightarrow> pyobj \<Rightarrow> world \<Rightarrow> CacheEntry \<times> world" where
  "create_cache_entry en c callback_result backend w =
     (new_cache_entry en callback_result backend,
      w\<lparr>extra_states := (extra_states w)(c :=
          map_option (\<lambda>e. e\<lparr>cache_entry_list :=
                new_cache_entry en callback_result backend # cache_entry_list e\<rparr>)
            (extra_states w c))\<rparr>)"

text \<open>
  Modelled from the spec: \<^verbatim>\<open>CacheEntry_get_code\<close> is not in the source file. It reads the
  specialized routine of a Cache Entry.
\<close>

definition CacheEntry_get_code :: "CacheEntry \<Rightarrow> pyobj" where
  "CacheEntry_get_code e = ce_code e"

text \<open>
  Modelled from the spec: \<^verbatim>\<open>CacheEntry_get_trace_annotation\<close> is not in the source file. It
  reads the trace label of a Cache Entry.
\<close>

definition CacheEntry_get_trace_annotation :: "CacheEntry \<Rightarrow> string" where
  "CacheEntry_get_trace_annotation e = ce_trace_annotation e"

text \<open>
  Modelled from the spec: \<^verbatim>\<open>FrameLocalsMapping\<close> is not in the source file. It is the
  snapshot of the frame's local bindings.
\<close>

definition FrameLocalsMapping :: "frame \<Rightarrow> pyobj list" where
  "FrameLocalsMapping fr = f_locals fr"

text \<open>
  Modelled from the spec: \<^verbatim>\<open>clear_old_frame_if_python_312_plus\<close> is not in the source
  file. It is the host bookkeeping that retires the bypassed call frame; only the call
  is recorded.
\<close>

definition clear_old_frame_if_python_312_plus :: "frame \<Rightarrow> world \<Rightarrow> world" where
  "clear_old_frame_if_python_312_plus fr w = w\<lparr>events := events w @ [ClearFrame (f_code fr)]\<rparr>"

text \<open>
  \<^verbatim>\<open>PyErr_SetString\<close> of the CPython API sets the error indicator of the thread.
\<close>

definition PyErr_SetString :: "pyexc \<Rightarrow> string \<Rightarrow> world \<Rightarrow> world" where
  "PyErr_SetString exc msg w = w\<lparr>py_err := Some (exc, msg)\<rparr>"

text \<open>The message of lines 173 to 177.\<close>

definition recompilation_message :: string where
  "recompilation_message =
     ''Recompilation triggered with skip_guard_eval_unsafe stance. '' @
     ''This usually means that you have not warmed up your model '' @
     ''with enough inputs such that you can guarantee no more recompilations.''"

section \<open>Calls into the host and the collaborators\<close>

text \<open>
  A call of a collaborator applies the parameter of the environment and logs the call.
  An execution, default or specialized, starts under the register as it stands and
  leaves in it whatever the executed routine left.
\<close>

definition call_eval_frame_default :: "env \<Rightarrow> frame \<Rightarrow> bool \<Rightarrow> world \<Rightarrow> pyobj option \<times> world" where
  "call_eval_frame_default en fr throw_flag w =
     (case dynamo_eval_frame_default en fr throw_flag (eval_frame_callback w) of
        (r, cb') \<Rightarrow>
          (r, w\<lparr>eval_frame_callback := cb',
                events := events w @ [EvalDefault (f_code fr) (eval_frame_callback w)]\<rparr>))"

definition call_eval_custom_code ::
  "env \<Rightarrow> frame \<Rightarrow> pyobj \<Rightarrow> string \<Rightarrow> bool \<Rightarrow> world \<Rightarrow> pyobj option \<times> world" where
  "call_eval_custom_code en fr cached_code trace_annotation throw_flag w =
     (case dynamo_eval_custom_code en fr cached_code trace_annotation throw_flag
             (eval_frame_callback w) of
        (r, cb') \<Rightarrow>
          (r, w\<lparr>eval_frame_callback := cb',
                events := events w @
                  [EvalCustom (f_code fr) cached_code trace_annotation (eval_frame_callback w)]\<rparr>))"

definition call_lookup ::
  "env \<Rightarrow> frame \<Rightarrow> ExtraState \<Rightarrow> pyobj list \<Rightarrow> pyobj \<Rightarrow> world \<Rightarrow> (pyobj option \<times> string) \<times> world" where
  "call_lookup en fr extra locals backend w =
     (lookup en extra locals backend (is_skip_guard_eval_unsafe en),
      w\<lparr>events := events w @ [Lookup (f_code fr) (eval_frame_callback w)]\<rparr>)"

definition call_callback ::
  "env \<Rightarrow> pyobj \<Rightarrow> frame \<Rightarrow> pyobj list \<Rightarrow> CacheEntry list \<Rightarrow> (string \<times> pyobj) list \<Rightarrow> world
     \<Rightarrow> pyobj option \<times> world" where
  "call_callback en callback fr locals cache_entry fstate w =
     (dynamo_call_callback en callback fr locals cache_entry fstate,
      w\<lparr>events := events w @ [CallCallback callback (f_code fr)]\<rparr>)"

section \<open>The exit functions\<close>

text \<open>
  The three lambdas of the source capture \<^verbatim>\<open>callback\<close>, \<^verbatim>\<open>recursive_callback\<close>,
  \<^verbatim>\<open>cached_code\<close> and \<^verbatim>\<open>trace_annotation\<close> by reference; here they take the values these
  variables hold when the lambda is called, and return \<^verbatim>\<open>eval_result\<close>, which is the
  null pointer until an execution assigns it. The debug-build check of \<^verbatim>\<open>cached_code\<close> and
  the reference counts are not modelled.
\<close>

definition eval_default ::
  "env \<Rightarrow> frame \<Rightarrow> bool \<Rightarrow> pyobj \<Rightarrow> pyobj \<Rightarrow> world \<Rightarrow> pyobj option \<times> world" where
  "eval_default en fr throw_flag callback recursive_callback w =
     (case call_eval_frame_default en fr throw_flag
             (eval_frame_callback_set recursive_callback w) of
        (eval_result, w') \<Rightarrow>
          (eval_result,
           if callback \<noteq> recursive_callback then eval_frame_callback_set callback w' else w'))"

definition eval_custom ::
  "env \<Rightarrow> frame \<Rightarrow> bool \<Rightarrow> pyobj \<Rightarrow> pyobj \<Rightarrow> pyobj \<Rightarrow> string \<Rightarrow> world \<Rightarrow> pyobj option \<times> world" where
  "eval_custom en fr throw_flag callback recursive_callback cached_code trace_annotation w =
     (case call_eval_custom_code en fr cached_code trace_annotation throw_flag
             (eval_frame_callback_set recursive_callback w) of
        (eval_result, w') \<Rightarrow>
          (eval_result,
           clear_old_frame_if_python_312_plus fr
             (if callback \<noteq> recursive_callback then eval_frame_callback_set callback w' else w')))"

definition fail :: "frame \<Rightarrow> world \<Rightarrow> pyobj option \<times> world" where
  "fail fr w = (None, clear_old_frame_if_python_312_plus fr w)"

section \<open>The dispatch\<close>

text \<open>
  Lines 187 to 246: the compiler callback is called and its result interpreted.
  \<open>strat\<close> is the strategy read before the lookup.
\<close>

definition dynamo__custom_eval_frame_compile ::
  "env \<Rightarrow> frame \<Rightarrow> bool \<Rightarrow> pyobj \<Rightarrow> pyobj \<Rightarrow> ExtraState \<Rightarrow> FrameExecStrategy \<Rightarrow> pyobj list \<Rightarrow> pyobj
     \<Rightarrow> world \<Rightarrow> pyobj option \<times> world" where
  "dynamo__custom_eval_frame_compile en fr throw_flag callback recursive_callback extra strat
       locals backend w =
     (case call_callback en callback fr locals (extract_cache_entry extra)
             (extract_frame_state extra) w of
        (callback_result, w1) \<Rightarrow>
          (case callback_result of
             None \<Rightarrow> fail fr w1
           | Some res \<Rightarrow>
               if res = skip_code_recursive_flag then
                 eval_default en fr throw_flag callback
                   (if recursive_action strat = DEFAULT then Py_None else recursive_callback)
                   (extra_state_set_exec_strategy (f_code fr)
                      \<lparr>cur_action = SKIP, recursive_action = SKIP\<rparr> w1)
               else if res = cache_limit_hit_flag then
                 eval_default en fr throw_flag callback
                   (if recursive_action strat = DEFAULT then Py_False else recursive_callback)
                   (extra_state_set_exec_strategy (f_code fr)
                      \<lparr>cur_action = RUN_ONLY, recursive_action = RUN_ONLY\<rparr> w1)
               else if res \<noteq> Py_None then
                 (case create_cache_entry en (f_code fr) res backend w1 of
                    (new_entry, w2) \<Rightarrow>
                      eval_custom en fr throw_flag callback recursive_callback
                        (CacheEntry_get_code new_entry)
                        (CacheEntry_get_trace_annotation new_entry) w2)
               else
                 eval_default en fr throw_flag callback recursive_callback
                   (extra_state_set_exec_strategy (f_code fr)
                      \<lparr>cur_action = SKIP, recursive_action = DEFAULT\<rparr> w1)))"

text \<open>Lines 126 to 185: guard lookup under a disabled callback, then hit, miss or failure.\<close>

definition dynamo__custom_eval_frame_lookup ::
  "env \<Rightarrow> frame \<Rightarrow> bool \<Rightarrow> pyobj \<Rightarrow> pyobj \<Rightarrow> ExtraState \<Rightarrow> FrameExecStrategy
     \<Rightarrow> world \<Rightarrow> pyobj option \<times> world" where
  "dynamo__custom_eval_frame_lookup en fr throw_flag callback recursive_callback extra strat w =
     (let locals = FrameLocalsMapping fr;
          backend = get_backend en callback
      in case call_lookup en fr extra locals backend (eval_frame_callback_set Py_None w) of
           ((maybe_cached_code, trace_annotation), w1) \<Rightarrow>
             (let run_only = (cur_action strat = RUN_ONLY \<or> callback = Py_False)
              in case maybe_cached_code of
                   None \<Rightarrow> fail fr w1
                 | Some c \<Rightarrow>
                     if c \<noteq> Py_None then
                       eval_custom en fr throw_flag callback recursive_callback c
                         trace_annotation w1
                     else if is_skip_guard_eval_unsafe en then
                       fail fr (PyErr_SetString PyExc_RuntimeError recompilation_message w1)
                     else if run_only then
                       eval_default en fr throw_flag callback recursive_callback w1
                     else
                       dynamo__custom_eval_frame_compile en fr throw_flag callback
                         recursive_callback extra strat locals backend w1))"

text \<open>Lines 34 to 124: the unwind bypass, the pass-through fast path, and the strategy.\<close>

definition dynamo__custom_eval_frame ::
  "env \<Rightarrow> frame \<Rightarrow> bool \<Rightarrow> pyobj \<Rightarrow> world \<Rightarrow> pyobj option \<times> world" where
  "dynamo__custom_eval_frame en fr throw_flag callback w =
     (if throw_flag then call_eval_frame_default en fr throw_flag w
      else
        let extra0 = get_extra_state (f_code fr) w
        in if callback = Py_False \<and> extra0 = None then
             eval_default en fr throw_flag callback callback w
           else
             (case (case extra0 of
                      None \<Rightarrow> init_and_set_extra_state (f_code fr) w
                    | Some e \<Rightarrow> (e, w)) of
                (extra, w1) \<Rightarrow>
                  (let strat = extra_state_get_exec_strategy extra;
                       recursive_callback =
                         (if cur_action strat \<noteq> DEFAULT then
                            (if recursive_action strat = SKIP then Py_None
                             else if recursive_action strat = RUN_ONLY then Py_False
                             else callback)
                          else callback)
                   in if cur_action strat = SKIP then
                        eval_default en fr throw_flag callback recursive_callback w1
                      else
                        dynamo__custom_eval_frame_lookup en fr throw_flag callback
                          recursive_callback extra strat w1)))"

section \<open>Path conditions\<close>

text \<open>
  The Extra State the dispatch works on once the lazy creation of line 106 has run: the
  stored one, or a fresh one.
\<close>

definition current_extra :: "frame \<Rightarrow> world \<Rightarrow> ExtraState" where
  "current_extra fr w =
     (case get_extra_state (f_code fr) w of None \<Rightarrow> initial_extra_state | Some e \<Rightarrow> e)"

text \<open>
  The dispatch reaches guard lookup when none of the three early exits is taken: the
  unwind bypass, the pass-through fast path, and the SKIP strategy.
\<close>

definition reaches_lookup :: "frame \<Rightarrow> bool \<Rightarrow> pyobj \<Rightarrow> world \<Rightarrow> bool" where
  "reaches_lookup fr throw_flag callback w \<longleftrightarrow>
     \<not> throw_flag \<and>
     \<not> (callback = Py_False \<and> get_extra_state (f_code fr) w = None) \<and>
     cur_action (strategy (current_extra fr w)) \<noteq> SKIP"

definition lookup_result :: "env \<Rightarrow> frame \<Rightarrow> pyobj \<Rightarrow> world \<Rightarrow> pyobj option \<times> string" where
  "lookup_result en fr callback w =
     lookup en (current_extra fr w) (FrameLocalsMapping fr) (get_backend en callback)
       (is_skip_guard_eval_unsafe en)"

definition cache_miss :: "env \<Rightarrow> frame \<Rightarrow> bool \<Rightarrow> pyobj \<Rightarrow> world \<Rightarrow> bool" where
  "cache_miss en fr throw_flag callback w \<longleftrightarrow>
     reaches_lookup fr throw_flag callback w \<and>
     fst (lookup_result en fr callback w) = Some Py_None"

definition run_only_mode :: "frame \<Rightarrow> pyobj \<Rightarrow> world \<Rightarrow> bool" where
  "run_only_mode fr callback w \<longleftrightarrow>
     cur_action (strategy (current_extra fr w)) = RUN_ONLY \<or> callback = Py_False"

text \<open>
  A genuine cache miss with full interception: the compiler callback is called, and
  \<open>callback_result\<close> is what it returns.
\<close>

definition reaches_callback :: "env \<Rightarrow> frame \<Rightarrow> bool \<Rightarrow> pyobj \<Rightarrow> world \<Rightarrow> bool" where
  "reaches_callback en fr throw_flag callback w \<longleftrightarrow>
     cache_miss en fr throw_flag callback w \<and>
     \<not> is_skip_guard_eval_unsafe en \<and>
     \<not> run_only_mode fr callback w"

definition callback_result :: "env \<Rightarrow> frame \<Rightarrow> pyobj \<Rightarrow> world \<Rightarrow> pyobj option" where
  "callback_result en fr callback w =
     dynamo_call_callback en callback fr (FrameLocalsMapping fr)
       (extract_cache_entry (current_extra fr w)) (extract_frame_state (current_extra fr w))"

text \<open>The world once the Extra State of the frame's routine exists.\<close>

definition with_extra :: "frame \<Rightarrow> world \<Rightarrow> world" where
  "with_extra fr w = w\<lparr>extra_states := (extra_states w)(f_code fr \<mapsto> current_extra fr w)\<rparr>"

text \<open>The events one invocation adds to the log.\<close>

definition invocation_events ::
  "env \<Rightarrow> frame \<Rightarrow> bool \<Rightarrow> pyobj \<Rightarrow> world \<Rightarrow> event list" where
  "invocation_events en fr throw_flag callback w =
     drop (length (events w)) (events (snd (dynamo__custom_eval_frame en fr throw_flag callback w)))"

text \<open>
  The callback installed for nested calls by lines 109 to 117, before any compiler
  result is known.
\<close>

definition recursive_callback_of :: "FrameExecStrategy \<Rightarrow> pyobj \<Rightarrow> pyobj" where
  "recursive_callback_of strat callback =
     (if cur_action strat \<noteq> DEFAULT then
        (if recursive_action strat = SKIP then Py_None
         else if recursive_action strat = RUN_ONLY then Py_False
         else callback)
      else callback)"

text \<open>The world in which guard lookup, and then the compiler callback, has just returned.\<close>

definition after_lookup :: "frame \<Rightarrow> world \<Rightarrow> world" where
  "after_lookup fr w =
     (with_extra fr w)\<lparr>eval_frame_callback := Py_None,
        events := events w @ [CallbackSet Py_None, Lookup (f_code fr) Py_None]\<rparr>"

definition after_callback :: "frame \<Rightarrow> pyobj \<Rightarrow> world \<Rightarrow> world" where
  "after_callback fr callback w =
     (with_extra fr w)\<lparr>eval_frame_callback := Py_None,
        events := events w @ [CallbackSet Py_None, Lookup (f_code fr) Py_None,
          CallCallback callback (f_code fr)]\<rparr>"

text \<open>
  The exits on which nothing is executed, all through \<^verbatim>\<open>fail\<close>: guard evaluation raised
  (line 160), a miss in unsafe mode (line 178), or a null compiler result (line 201).
\<close>

definition exits_by_failure :: "env \<Rightarrow> frame \<Rightarrow> bool \<Rightarrow> pyobj \<Rightarrow> world \<Rightarrow> bool" where
  "exits_by_failure en fr throw_flag callback w \<longleftrightarrow>
     reaches_lookup fr throw_flag callback w \<and>
     (fst (lookup_result en fr callback w) = None \<or>
      (fst (lookup_result en fr callback w) = Some Py_None \<and>
       (is_skip_guard_eval_unsafe en \<or>
        (\<not> run_only_mode fr callback w \<and> callback_result en fr callback w = None))))"

text \<open>
  The value of \<^verbatim>\<open>recursive_callback\<close> when an exit function runs after the lookup: the one
  of lines 109 to 117, replaced by a sentinel at lines 209 to 211 and 218 to 220 when the
  compiler returns the matching flag and the recursive action read before was DEFAULT.
\<close>

definition nested_callback :: "env \<Rightarrow> frame \<Rightarrow> bool \<Rightarrow> pyobj \<Rightarrow> world \<Rightarrow> pyobj" where
  "nested_callback en fr throw_flag callback w =
     (if reaches_callback en fr throw_flag callback w \<and>
         recursive_action (strategy (current_extra fr w)) = DEFAULT \<and>
         callback_result en fr callback w = Some skip_code_recursive_flag then Py_None
      else if reaches_callback en fr throw_flag callback w \<and>
         recursive_action (strategy (current_extra fr w)) = DEFAULT \<and>
         callback_result en fr callback w = Some cache_limit_hit_flag then Py_False
      else recursive_callback_of (strategy (current_extra fr w)) callback)"

section \<open>Observations on the event log\<close>

fun is_callback_call :: "event \<Rightarrow> bool" where
  "is_callback_call (CallCallback cb c) = True"
| "is_callback_call e = False"

fun is_eval_default :: "event \<Rightarrow> bool" where
  "is_eval_default (EvalDefault c r) = True"
| "is_eval_default e = False"

text \<open>The register values under which the routine, original or specialized, was run.\<close>

fun exec_callbacks :: "event list \<Rightarrow> pyobj list" where
  "exec_callbacks [] = []"
| "exec_callbacks (EvalDefault c r # es) = r # exec_callbacks es"
| "exec_callbacks (EvalCustom c code ann r # es) = r # exec_callbacks es"
| "exec_callbacks (e # es) = exec_callbacks es"

text \<open>The specialized routines, with their trace labels, handed to custom execution.\<close>

fun custom_runs :: "event list \<Rightarrow> (pyobj \<times> string) list" where
  "custom_runs [] = []"
| "custom_runs (EvalCustom c code ann r # es) = (code, ann) # custom_runs es"
| "custom_runs (e # es) = custom_runs es"

text \<open>
  The spec's ordering rule for the register, in its own words: the event that follows a
  guard lookup restores the prior callback.
\<close>

fun restored_after_lookup :: "pyobj \<Rightarrow> event list \<Rightarrow> bool" where
  "restored_after_lookup prior [] = True"
| "restored_after_lookup prior (Lookup c r # es) =
     (case es of
        CallbackSet cb # rest \<Rightarrow> cb = prior \<and> restored_after_lookup prior es
      | _ \<Rightarrow> False)"
| "restored_after_lookup prior (e # es) = restored_after_lookup prior es"

text \<open>The events that restore the caller's callback after an execution, if any.\<close>

definition restore_events :: "pyobj \<Rightarrow> pyobj \<Rightarrow> event list" where
  "restore_events callback recursive_callback =
     (if callback \<noteq> recursive_callback then [CallbackSet callback] else [])"

section \<open>Successive invocations\<close>

text \<open>
  The host calls the dispatch once per frame. A run of the host is a list of such calls,
  each with its own collaborators, frame, unwind flag and callback.
\<close>

fun run_calls :: "(env \<times> frame \<times> bool \<times> pyobj) list \<Rightarrow> world \<Rightarrow> world" where
  "run_calls [] w = w"
| "run_calls ((en, fr, throw_flag, callback) # cs) w =
     run_calls cs (snd (dynamo__custom_eval_frame en fr throw_flag callback w))"

definition strategy_of :: "nat \<Rightarrow> world \<Rightarrow> FrameExecStrategy option" where
  "strategy_of c w = map_option strategy (extra_states w c)"

section \<open>A concrete host\<close>

text \<open>
  One routine, one frame of it, and collaborators with fixed answers: lookup misses, the
  compiler returns the object \<open>PyObj 5\<close>, whose specialized routine is \<open>PyObj 6\<close>, and
  both executions leave the callback register as they found it. The variants below
  change one answer each.
\<close>

definition example_frame :: frame where
  "example_frame = \<lparr>f_code = 0, f_locals = [PyObj 7]\<rparr>"

definition example_env :: env where
  "example_env =
     \<lparr>is_skip_guard_eval_unsafe = False,
      get_backend = (\<lambda>cb. cb),
      lookup = (\<lambda>extra locals backend unsafe. (Some Py_None, [])),
      dynamo_call_callback = (\<lambda>cb fr locals entries fstate. Some (PyObj 5)),
      dynamo_eval_frame_default = (\<lambda>fr throw_flag r. (Some (PyObj 9), r)),
      dynamo_eval_custom_code = (\<lambda>fr code ann throw_flag r. (Some (PyObj 8), r)),
      guarded_code_code = (\<lambda>res. PyObj 6),
      guarded_code_trace_annotation = (\<lambda>res. ''compiled'')\<rparr>"

definition example_world :: world where
  "example_world =
     \<lparr>eval_frame_callback = PyObj 1, extra_states = (\<lambda>c. None), py_err = None, events = []\<rparr>"

definition example_world_with :: "FrameExecStrategy \<Rightarrow> world" where
  "example_world_with s =
     example_world\<lparr>extra_states := (\<lambda>c. None)(0 \<mapsto> initial_extra_state\<lparr>strategy := s\<rparr>)\<rparr>"

text \<open>
  The same routine after one compilation: its Extra State holds one cache entry, and the
  guard evaluator accepts the first entry it is given.
\<close>

definition example_entry :: CacheEntry where
  "example_entry =
     \<lparr>ce_guard = PyObj 5, ce_code = PyObj 6, ce_trace_annotation = ''compiled'',
      ce_backend = PyObj 1\<rparr>"

definition example_world_cached :: "FrameExecStrategy \<Rightarrow> world" where
  "example_world_cached s =
     example_world\<lparr>extra_states := (\<lambda>c. None)(0 \<mapsto>
       \<lparr>cache_entry_list = [example_entry], frame_state = [], strategy = s\<rparr>)\<rparr>"

definition example_lookup_hit ::
  "ExtraState \<Rightarrow> pyobj list \<Rightarrow> pyobj \<Rightarrow> bool \<Rightarrow> pyobj option \<times> string" where
  "example_lookup_hit extra locals backend unsafe =
     (case cache_entry_list extra of
        [] \<Rightarrow> (Some Py_None, [])
      | e # es \<Rightarrow> (Some (ce_code e), ce_trace_annotation e))"

section \<open>Reading the dispatch path by path\<close>

lemma with_extra_init:
  "get_extra_state (f_code fr) w = None \<Longrightarrow>
     init_and_set_extra_state (f_code fr) w = (current_extra fr w, with_extra fr w)"
  by (simp add: init_and_set_extra_state_def current_extra_def with_extra_def get_extra_state_def)

lemma with_extra_same:
  "get_extra_state (f_code fr) w = Some e \<Longrightarrow> current_extra fr w = e \<and> with_extra fr w = w"
  by (simp add: current_extra_def with_extra_def get_extra_state_def fun_upd_idem)

lemma dispatch_strategy:
  assumes "\<not> throw_flag"
    and "\<not> (callback = Py_False \<and> get_extra_state (f_code fr) w = None)"
  shows "dynamo__custom_eval_frame en fr throw_flag callback w =
     (if cur_action (strategy (current_extra fr w)) = SKIP then
        eval_default en fr throw_flag callback
          (recursive_callback_of (strategy (current_extra fr w)) callback) (with_extra fr w)
      else
        dynamo__custom_eval_frame_lookup en fr throw_flag callback
          (recursive_callback_of (strategy (current_extra fr w)) callback)
          (current_extra fr w) (strategy (current_extra fr w)) (with_extra fr w))"
proof (cases "get_extra_state (f_code fr) w")
  case None
  then show ?thesis
    using assms
    by (simp add: dynamo__custom_eval_frame_def with_extra_init recursive_callback_of_def
        extra_state_get_exec_strategy_def Let_def)
next
  case (Some e)
  then show ?thesis
    using assms with_extra_same[OF Some]
    by (simp add: dynamo__custom_eval_frame_def recursive_callback_of_def
        extra_state_get_exec_strategy_def Let_def)
qed

lemma lookup_phase:
  "dynamo__custom_eval_frame_lookup en fr throw_flag callback rc (current_extra fr w) strat
      (with_extra fr w) =
     (case fst (lookup_result en fr callback w) of
        None \<Rightarrow> fail fr (after_lookup fr w)
      | Some c \<Rightarrow>
          if c \<noteq> Py_None then
            eval_custom en fr throw_flag callback rc c (snd (lookup_result en fr callback w))
              (after_lookup fr w)
          else if is_skip_guard_eval_unsafe en then
            fail fr (PyErr_SetString PyExc_RuntimeError recompilation_message (after_lookup fr w))
          else if cur_action strat = RUN_ONLY \<or> callback = Py_False then
            eval_default en fr throw_flag callback rc (after_lookup fr w)
          else
            dynamo__custom_eval_frame_compile en fr throw_flag callback rc
              (current_extra fr w) strat (FrameLocalsMapping fr) (get_backend en callback)
              (after_lookup fr w))"
  by (simp add: dynamo__custom_eval_frame_lookup_def call_lookup_def eval_frame_callback_set_def
      lookup_result_def after_lookup_def with_extra_def Let_def split: prod.splits option.splits)

lemma compile_phase:
  "dynamo__custom_eval_frame_compile en fr throw_flag callback rc (current_extra fr w) strat
      (FrameLocalsMapping fr) backend (after_lookup fr w) =
     (case callback_result en fr callback w of
        None \<Rightarrow> fail fr (after_callback fr callback w)
      | Some res \<Rightarrow>
          if res = skip_code_recursive_flag then
            eval_default en fr throw_flag callback
              (if recursive_action strat = DEFAULT then Py_None else rc)
              (extra_state_set_exec_strategy (f_code fr)
                 \<lparr>cur_action = SKIP, recursive_action = SKIP\<rparr> (after_callback fr callback w))
          else if res = cache_limit_hit_flag then
            eval_default en fr throw_flag callback
              (if recursive_action strat = DEFAULT then Py_False else rc)
              (extra_state_set_exec_strategy (f_code fr)
                 \<lparr>cur_action = RUN_ONLY, recursive_action = RUN_ONLY\<rparr>
                 (after_callback fr callback w))
          else if res \<noteq> Py_None then
            eval_custom en fr throw_flag callback rc
              (ce_code (new_cache_entry en res backend))
              (ce_trace_annotation (new_cache_entry en res backend))
              (snd (create_cache_entry en (f_code fr) res backend (after_callback fr callback w)))
          else
            eval_default en fr throw_flag callback rc
              (extra_state_set_exec_strategy (f_code fr)
                 \<lparr>cur_action = SKIP, recursive_action = DEFAULT\<rparr>
                 (after_callback fr callback w)))"
  by (simp add: dynamo__custom_eval_frame_compile_def call_callback_def callback_result_def
      after_lookup_def after_callback_def create_cache_entry_def CacheEntry_get_code_def
      CacheEntry_get_trace_annotation_def split: option.splits)

text \<open>Projections of the exits.\<close>

lemma eval_default_result:
  "fst (eval_default en fr throw_flag callback rc w) =
     fst (dynamo_eval_frame_default en fr throw_flag rc)"
  by (simp add: eval_default_def call_eval_frame_default_def eval_frame_callback_set_def
      split: prod.splits)

lemma eval_default_events:
  "events (snd (eval_default en fr throw_flag callback rc w)) =
     events w @ [CallbackSet rc, EvalDefault (f_code fr) rc] @ restore_events callback rc"
  by (simp add: eval_default_def call_eval_frame_default_def eval_frame_callback_set_def
      restore_events_def split: prod.splits)

lemma eval_default_store:
  "extra_states (snd (eval_default en fr throw_flag callback rc w)) = extra_states w"
  "py_err (snd (eval_default en fr throw_flag callback rc w)) = py_err w"
  by (simp_all add: eval_default_def call_eval_frame_default_def eval_frame_callback_set_def
      case_prod_unfold)

lemma eval_default_register:
  "eval_frame_callback (snd (eval_default en fr throw_flag callback rc w)) =
     (if callback \<noteq> rc then callback else snd (dynamo_eval_frame_default en fr throw_flag rc))"
  by (simp add: eval_default_def call_eval_frame_default_def eval_frame_callback_set_def
      split: prod.splits)

lemma eval_custom_result:
  "fst (eval_custom en fr throw_flag callback rc code ann w) =
     fst (dynamo_eval_custom_code en fr code ann throw_flag rc)"
  by (simp add: eval_custom_def call_eval_custom_code_def eval_frame_callback_set_def
      split: prod.splits)

lemma eval_custom_events:
  "events (snd (eval_custom en fr throw_flag callback rc code ann w)) =
     events w @ [CallbackSet rc, EvalCustom (f_code fr) code ann rc] @
       restore_events callback rc @ [ClearFrame (f_code fr)]"
  by (simp add: eval_custom_def call_eval_custom_code_def eval_frame_callback_set_def
      clear_old_frame_if_python_312_plus_def restore_events_def split: prod.splits)

lemma eval_custom_store:
  "extra_states (snd (eval_custom en fr throw_flag callback rc code ann w)) = extra_states w"
  "py_err (snd (eval_custom en fr throw_flag callback rc code ann w)) = py_err w"
  by (simp_all add: eval_custom_def call_eval_custom_code_def eval_frame_callback_set_def
      clear_old_frame_if_python_312_plus_def case_prod_unfold)

lemma eval_custom_register:
  "eval_frame_callback (snd (eval_custom en fr throw_flag callback rc code ann w)) =
     (if callback \<noteq> rc then callback
      else snd (dynamo_eval_custom_code en fr code ann throw_flag rc))"
  by (simp add: eval_custom_def call_eval_custom_code_def eval_frame_callback_set_def
      clear_old_frame_if_python_312_plus_def split: prod.splits)

lemma fail_proj:
  "fst (fail fr w) = None"
  "events (snd (fail fr w)) = events w @ [ClearFrame (f_code fr)]"
  "extra_states (snd (fail fr w)) = extra_states w"
  "py_err (snd (fail fr w)) = py_err w"
  "eval_frame_callback (snd (fail fr w)) = eval_frame_callback w"
  by (simp_all add: fail_def clear_old_frame_if_python_312_plus_def)

lemma throw_proj:
  "fst (call_eval_frame_default en fr throw_flag w) =
     fst (dynamo_eval_frame_default en fr throw_flag (eval_frame_callback w))"
  "events (snd (call_eval_frame_default en fr throw_flag w)) =
     events w @ [EvalDefault (f_code fr) (eval_frame_callback w)]"
  "extra_states (snd (call_eval_frame_default en fr throw_flag w)) = extra_states w"
  "py_err (snd (call_eval_frame_default en fr throw_flag w)) = py_err w"
  "eval_frame_callback (snd (call_eval_frame_default en fr throw_flag w)) =
     snd (dynamo_eval_frame_default en fr throw_flag (eval_frame_callback w))"
  by (simp_all add: call_eval_frame_default_def split: prod.splits)

lemma after_proj:
  "events (after_lookup fr w) = events w @ [CallbackSet Py_None, Lookup (f_code fr) Py_None]"
  "extra_states (after_lookup fr w) = (extra_states w)(f_code fr \<mapsto> current_extra fr w)"
  "py_err (after_lookup fr w) = py_err w"
  "eval_frame_callback (after_lookup fr w) = Py_None"
  "events (after_callback fr callback w) =
     events w @ [CallbackSet Py_None, Lookup (f_code fr) Py_None, CallCallback callback (f_code fr)]"
  "extra_states (after_callback fr callback w) = (extra_states w)(f_code fr \<mapsto> current_extra fr w)"
  "py_err (after_callback fr callback w) = py_err w"
  "eval_frame_callback (after_callback fr callback w) = Py_None"
  "events (with_extra fr w) = events w"
  "extra_states (with_extra fr w) = (extra_states w)(f_code fr \<mapsto> current_extra fr w)"
  "py_err (with_extra fr w) = py_err w"
  "eval_frame_callback (with_extra fr w) = eval_frame_callback w"
  by (simp_all add: after_lookup_def after_callback_def with_extra_def)

lemma writes_proj:
  "events (extra_state_set_exec_strategy c s w) = events w"
  "extra_states (extra_state_set_exec_strategy c s w) =
     (extra_states w)(c := map_option (\<lambda>e. e\<lparr>strategy := s\<rparr>) (extra_states w c))"
  "py_err (extra_state_set_exec_strategy c s w) = py_err w"
  "eval_frame_callback (extra_state_set_exec_strategy c s w) = eval_frame_callback w"
  "events (snd (create_cache_entry en c res backend w)) = events w"
  "extra_states (snd (create_cache_entry en c res backend w)) =
     (extra_states w)(c := map_option
        (\<lambda>e. e\<lparr>cache_entry_list := new_cache_entry en res backend # cache_entry_list e\<rparr>)
        (extra_states w c))"
  "py_err (snd (create_cache_entry en c res backend w)) = py_err w"
  "eval_frame_callback (snd (create_cache_entry en c res backend w)) = eval_frame_callback w"
  "events (PyErr_SetString exc msg w) = events w"
  "extra_states (PyErr_SetString exc msg w) = extra_states w"
  "py_err (PyErr_SetString exc msg w) = Some (exc, msg)"
  "eval_frame_callback (PyErr_SetString exc msg w) = eval_frame_callback w"
  by (simp_all add: extra_state_set_exec_strategy_def create_cache_entry_def PyErr_SetString_def)

lemmas exit_proj =
  eval_default_result eval_default_events eval_default_store eval_default_register
  eval_custom_result eval_custom_events eval_custom_store eval_custom_register
  fail_proj throw_proj after_proj writes_proj

lemma dispatch_unfold:
  "dynamo__custom_eval_frame en fr throw_flag callback w =
     (if throw_flag then call_eval_frame_default en fr throw_flag w
      else if callback = Py_False \<and> get_extra_state (f_code fr) w = None then
        eval_default en fr throw_flag callback callback w
      else if cur_action (strategy (current_extra fr w)) = SKIP then
        eval_default en fr throw_flag callback
          (recursive_callback_of (strategy (current_extra fr w)) callback) (with_extra fr w)
      else
        (case fst (lookup_result en fr callback w) of
           None \<Rightarrow> fail fr (after_lookup fr w)
         | Some c \<Rightarrow>
             if c \<noteq> Py_None then
               eval_custom en fr throw_flag callback
                 (recursive_callback_of (strategy (current_extra fr w)) callback)
                 c (snd (lookup_result en fr callback w)) (after_lookup fr w)
             else if is_skip_guard_eval_unsafe en then
               fail fr (PyErr_SetString PyExc_RuntimeError recompilation_message
                 (after_lookup fr w))
             else if run_only_mode fr callback w then
               eval_default en fr throw_flag callback
                 (recursive_callback_of (strategy (current_extra fr w)) callback)
                 (after_lookup fr w)
             else
               (case callback_result en fr callback w of
                  None \<Rightarrow> fail fr (after_callback fr callback w)
                | Some res \<Rightarrow>
                    if res = skip_code_recursive_flag then
                      eval_default en fr throw_flag callback
                        (if recursive_action (strategy (current_extra fr w)) = DEFAULT
                         then Py_None else callback)
                        (extra_state_set_exec_strategy (f_code fr)
                           \<lparr>cur_action = SKIP, recursive_action = SKIP\<rparr>
                           (after_callback fr callback w))
                    else if res = cache_limit_hit_flag then
                      eval_default en fr throw_flag callback
                        (if recursive_action (strategy (current_extra fr w)) = DEFAULT
                         then Py_False else callback)
                        (extra_state_set_exec_strategy (f_code fr)
                           \<lparr>cur_action = RUN_ONLY, recursive_action = RUN_ONLY\<rparr>
                           (after_callback fr callback w))
                    else if res \<noteq> Py_None then
                      eval_custom en fr throw_flag callback callback
                        (ce_code (new_cache_entry en res (get_backend en callback)))
                        (ce_trace_annotation (new_cache_entry en res (get_backend en callback)))
                        (snd (create_cache_entry en (f_code fr) res (get_backend en callback)
                           (after_callback fr callback w)))
                    else
                      eval_default en fr throw_flag callback callback
                        (extra_state_set_exec_strategy (f_code fr)
                           \<lparr>cur_action = SKIP, recursive_action = DEFAULT\<rparr>
                           (after_callback fr callback w)))))"
proof (cases "throw_flag \<or> (callback = Py_False \<and> get_extra_state (f_code fr) w = None)")
  case True
  then show ?thesis
    by (auto simp: dynamo__custom_eval_frame_def)
next
  case False
  then have a: "\<not> throw_flag"
    and b: "\<not> (callback = Py_False \<and> get_extra_state (f_code fr) w = None)"
    by simp_all
  have c: "(callback = Py_False \<and> get_extra_state (f_code fr) w = None) = False"
    using b by simp
  have rc: "recursive_callback_of \<lparr>cur_action = DEFAULT, recursive_action = r\<rparr> callback = callback"
    for r
    by (simp add: recursive_callback_of_def)
  show ?thesis
  proof (cases "cur_action (strategy (current_extra fr w))")
    case DEFAULT
    then have s: "strategy (current_extra fr w) =
        \<lparr>cur_action = DEFAULT, recursive_action = recursive_action (strategy (current_extra fr w))\<rparr>"
      by (cases "strategy (current_extra fr w)") simp
    show ?thesis
      unfolding dispatch_strategy[OF a b] lookup_phase compile_phase
      by (simp add: a c DEFAULT run_only_mode_def recursive_callback_of_def
          split: option.splits)
  next
    case SKIP
    then show ?thesis
      unfolding dispatch_strategy[OF a b]
      by (simp add: a c)
  next
    case RUN_ONLY
    then show ?thesis
      unfolding dispatch_strategy[OF a b] lookup_phase
      by (simp add: a c run_only_mode_def split: option.splits)
  qed
qed

section \<open>The events and the store of one invocation\<close>

lemmas path_defs = reaches_lookup_def cache_miss_def reaches_callback_def

lemmas example_defs = example_frame_def example_env_def example_world_def
  example_world_with_def example_entry_def example_world_cached_def example_lookup_hit_def

lemma invocation_events_unfold:
  "invocation_events en fr throw_flag callback w =
     (if throw_flag then [EvalDefault (f_code fr) (eval_frame_callback w)]
      else if callback = Py_False \<and> get_extra_state (f_code fr) w = None then
        [CallbackSet callback, EvalDefault (f_code fr) callback]
      else if cur_action (strategy (current_extra fr w)) = SKIP then
        [CallbackSet (recursive_callback_of (strategy (current_extra fr w)) callback),
         EvalDefault (f_code fr) (recursive_callback_of (strategy (current_extra fr w)) callback)]
        @ restore_events callback (recursive_callback_of (strategy (current_extra fr w)) callback)
      else
        [CallbackSet Py_None, Lookup (f_code fr) Py_None] @
        (case fst (lookup_result en fr callback w) of
           None \<Rightarrow> [ClearFrame (f_code fr)]
         | Some c \<Rightarrow>
             if c \<noteq> Py_None then
               [CallbackSet (recursive_callback_of (strategy (current_extra fr w)) callback),
                EvalCustom (f_code fr) c (snd (lookup_result en fr callback w))
                  (recursive_callback_of (strategy (current_extra fr w)) callback)]
               @ restore_events callback
                   (recursive_callback_of (strategy (current_extra fr w)) callback)
               @ [ClearFrame (f_code fr)]
             else if is_skip_guard_eval_unsafe en then [ClearFrame (f_code fr)]
             else if run_only_mode fr callback w then
               [CallbackSet (recursive_callback_of (strategy (current_extra fr w)) callback),
                EvalDefault (f_code fr)
                  (recursive_callback_of (strategy (current_extra fr w)) callback)]
               @ restore_events callback
                   (recursive_callback_of (strategy (current_extra fr w)) callback)
             else
               CallCallback callback (f_code fr) #
               (case callback_result en fr callback w of
                  None \<Rightarrow> [ClearFrame (f_code fr)]
                | Some res \<Rightarrow>
                    if res = skip_code_recursive_flag then
                      [CallbackSet (if recursive_action (strategy (current_extra fr w)) = DEFAULT
                         then Py_None else callback),
                       EvalDefault (f_code fr)
                         (if recursive_action (strategy (current_extra fr w)) = DEFAULT
                          then Py_None else callback)]
                      @ restore_events callback
                          (if recursive_action (strategy (current_extra fr w)) = DEFAULT
                           then Py_None else callback)
                    else if res = cache_limit_hit_flag then
                      [CallbackSet (if recursive_action (strategy (current_extra fr w)) = DEFAULT
                         then Py_False else callback),
                       EvalDefault (f_code fr)
                         (if recursive_action (strategy (current_extra fr w)) = DEFAULT
                          then Py_False else callback)]
                      @ restore_events callback
                          (if recursive_action (strategy (current_extra fr w)) = DEFAULT
                           then Py_False else callback)
                    else if res \<noteq> Py_None then
                      [CallbackSet callback,
                       EvalCustom (f_code fr)
                         (ce_code (new_cache_entry en res (get_backend en callback)))
                         (ce_trace_annotation (new_cache_entry en res (get_backend en callback)))
                         callback,
                       ClearFrame (f_code fr)]
                    else [CallbackSet callback, EvalDefault (f_code fr) callback])))"
  unfolding invocation_events_def dispatch_unfold
  by (simp add: exit_proj restore_events_def split: option.splits)

lemma events_extend:
  "events (snd (dynamo__custom_eval_frame en fr throw_flag callback w)) =
     events w @ invocation_events en fr throw_flag callback w"
  unfolding invocation_events_def dispatch_unfold
  by (simp add: exit_proj split: option.splits)

section \<open>Facts about lists of events\<close>

lemma exec_callbacks_append:
  "exec_callbacks (xs @ ys) = exec_callbacks xs @ exec_callbacks ys"
  by (induction xs rule: exec_callbacks.induct) simp_all

lemma exec_callbacks_restore:
  "exec_callbacks (restore_events callback rc) = []"
  by (simp add: restore_events_def)

lemmas event_list_simps =
  exec_callbacks_append exec_callbacks_restore

section \<open>The unwind bypass\<close>

text \<open>
  C4. When the unwind flag is set, the dispatch returns what default execution returns
  and does nothing else: the only event is that one execution, under the register as the
  caller left it; there is no lookup, no compiler call and no register write; no Extra
  State is created or changed, whatever the stored strategy, and the error indicator is
  untouched. The register afterwards is the one default execution leaves.
\<close>

theorem unwind_bypasses_interception:
  assumes "throw_flag"
  shows "fst (dynamo__custom_eval_frame en fr throw_flag callback w) =
           fst (dynamo_eval_frame_default en fr throw_flag (eval_frame_callback w)) \<and>
         events (snd (dynamo__custom_eval_frame en fr throw_flag callback w)) =
           events w @ [EvalDefault (f_code fr) (eval_frame_callback w)] \<and>
         extra_states (snd (dynamo__custom_eval_frame en fr throw_flag callback w)) =
           extra_states w \<and>
         py_err (snd (dynamo__custom_eval_frame en fr throw_flag callback w)) = py_err w \<and>
         eval_frame_callback (snd (dynamo__custom_eval_frame en fr throw_flag callback w)) =
           snd (dynamo_eval_frame_default en fr throw_flag (eval_frame_callback w))"
  using assms by (simp add: dispatch_unfold exit_proj)

theorem unwind_bypasses_interception_witness:
  "fst (dynamo__custom_eval_frame example_env example_frame True (PyObj 1)
          (example_world_with \<lparr>cur_action = DEFAULT, recursive_action = DEFAULT\<rparr>)) =
     Some (PyObj 9) \<and>
   events (snd (dynamo__custom_eval_frame example_env example_frame True (PyObj 1)
          (example_world_with \<lparr>cur_action = DEFAULT, recursive_action = DEFAULT\<rparr>))) =
     [EvalDefault 0 (PyObj 1)]"
  using unwind_bypasses_interception[of True example_env example_frame "PyObj 1"
      "example_world_with \<lparr>cur_action = DEFAULT, recursive_action = DEFAULT\<rparr>"]
  by (simp add: example_defs)

lemma reaches_callbackD:
  assumes "reaches_callback en fr throw_flag callback w"
  shows "\<not> throw_flag" "callback \<noteq> Py_False"
    "cur_action (strategy (current_extra fr w)) = DEFAULT"
    "fst (lookup_result en fr callback w) = Some Py_None"
    "\<not> is_skip_guard_eval_unsafe en" "\<not> run_only_mode fr callback w"
  using assms
  by (cases "cur_action (strategy (current_extra fr w))";
      simp add: path_defs run_only_mode_def)+

lemma example_reaches_callback:
  "reaches_callback (example_env\<lparr>dynamo_call_callback := f\<rparr>) example_frame False (PyObj 1)
     example_world"
  by (simp add: path_defs run_only_mode_def lookup_result_def current_extra_def
      get_extra_state_def initial_extra_state_def example_defs)

section \<open>The unsafe skip-guard-eval mode\<close>

text \<open>
  C6. When guard lookup misses while \<^verbatim>\<open>is_skip_guard_eval_unsafe\<close> is set, the dispatch
  fails at once: the result is the null pointer, the error indicator holds the
  RuntimeError with the recompilation message, the only events are the disabling of the
  callback, the lookup and the retiring of the frame (so the compiler callback is not
  called and nothing is executed in its place), and the routine's Extra State is the one
  the dispatch found or lazily created, with its strategy as it was.
\<close>

theorem unsafe_miss_fails:
  assumes "cache_miss en fr throw_flag callback w"
    and "is_skip_guard_eval_unsafe en"
  shows "fst (dynamo__custom_eval_frame en fr throw_flag callback w) = None \<and>
         py_err (snd (dynamo__custom_eval_frame en fr throw_flag callback w)) =
           Some (PyExc_RuntimeError, recompilation_message) \<and>
         events (snd (dynamo__custom_eval_frame en fr throw_flag callback w)) =
           events w @ [CallbackSet Py_None, Lookup (f_code fr) Py_None, ClearFrame (f_code fr)] \<and>
         extra_states (snd (dynamo__custom_eval_frame en fr throw_flag callback w)) =
           (extra_states w)(f_code fr \<mapsto> current_extra fr w)"
  using assms by (simp add: path_defs dispatch_unfold exit_proj)

theorem unsafe_miss_fails_witness:
  "cache_miss (example_env\<lparr>is_skip_guard_eval_unsafe := True\<rparr>) example_frame False (PyObj 1)
     example_world \<and>
   fst (dynamo__custom_eval_frame (example_env\<lparr>is_skip_guard_eval_unsafe := True\<rparr>)
          example_frame False (PyObj 1) example_world) = None \<and>
   events (snd (dynamo__custom_eval_frame (example_env\<lparr>is_skip_guard_eval_unsafe := True\<rparr>)
          example_frame False (PyObj 1) example_world)) =
     [CallbackSet Py_None, Lookup 0 Py_None, ClearFrame 0]"
proof -
  have h: "cache_miss (example_env\<lparr>is_skip_guard_eval_unsafe := True\<rparr>) example_frame False
      (PyObj 1) example_world"
    by (simp add: path_defs lookup_result_def current_extra_def get_extra_state_def
        initial_extra_state_def example_defs)
  have u: "is_skip_guard_eval_unsafe (example_env\<lparr>is_skip_guard_eval_unsafe := True\<rparr>)"
    by simp
  show ?thesis
    using h unsafe_miss_fails[OF h u] by (simp add: example_defs)
qed

section \<open>Failure of the compiler callback\<close>

text \<open>
  C7. When the compiler callback returns the null pointer, the dispatch returns the null
  pointer for this invocation; the callback register, disabled before the lookup, is not
  written again and is still disabled on return; nothing is executed; the Extra States
  of all other routines are untouched and the routine's own is the one found or lazily
  created, its cache entries and strategy unchanged.
\<close>

theorem compiler_failure_leaves_callback_disabled:
  assumes "reaches_callback en fr throw_flag callback w"
    and "callback_result en fr callback w = None"
  shows "fst (dynamo__custom_eval_frame en fr throw_flag callback w) = None \<and>
         eval_frame_callback (snd (dynamo__custom_eval_frame en fr throw_flag callback w)) =
           Py_None \<and>
         events (snd (dynamo__custom_eval_frame en fr throw_flag callback w)) =
           events w @ [CallbackSet Py_None, Lookup (f_code fr) Py_None,
             CallCallback callback (f_code fr), ClearFrame (f_code fr)] \<and>
         extra_states (snd (dynamo__custom_eval_frame en fr throw_flag callback w)) =
           (extra_states w)(f_code fr \<mapsto> current_extra fr w) \<and>
         py_err (snd (dynamo__custom_eval_frame en fr throw_flag callback w)) = py_err w"
  using reaches_callbackD[OF assms(1)] assms(2) by (simp add: dispatch_unfold exit_proj)

theorem compiler_failure_leaves_callback_disabled_witness:
  "reaches_callback
     (example_env\<lparr>dynamo_call_callback := (\<lambda>cb fr locals entries fstate. None)\<rparr>)
     example_frame False (PyObj 1) example_world \<and>
   eval_frame_callback example_world = PyObj 1 \<and>
   eval_frame_callback (snd (dynamo__custom_eval_frame
     (example_env\<lparr>dynamo_call_callback := (\<lambda>cb fr locals entries fstate. None)\<rparr>)
     example_frame False (PyObj 1) example_world)) = Py_None"
proof -
  let ?en = "example_env\<lparr>dynamo_call_callback := (\<lambda>cb fr locals entries fstate. None)\<rparr>"
  have h: "reaches_callback ?en example_frame False (PyObj 1) example_world"
    by (rule example_reaches_callback)
  have n: "callback_result ?en example_frame (PyObj 1) example_world = None"
    by (simp add: callback_result_def)
  show ?thesis
    using h compiler_failure_leaves_callback_disabled[OF h n] by (simp add: example_defs)
qed

section \<open>The pass-through fast path\<close>



section \<open>Interpreting the compiler callback's result\<close>

text \<open>
  C1. On a genuine cache miss with full interception (lookup reached and missed, unsafe
  mode off, strategy DEFAULT, callback not the run-only sentinel) the compiler callback
  is called once and its result decides the rest.
  A null result fails the invocation and leaves the Extra State as found.
  The skip-recursive flag stores \<open>(SKIP, SKIP)\<close> and default-executes; the cache-limit flag
  stores \<open>(RUN_ONLY, RUN_ONLY)\<close> and default-executes; in both, the execution runs under the
  matching sentinel (\<open>Py_None\<close>, \<open>Py_False\<close>) exactly when the recursive action read before
  the call was DEFAULT, and under the caller's callback otherwise.
  \<open>Py_None\<close> stores \<open>(SKIP, DEFAULT)\<close> and default-executes under the caller's callback.
  Any other object installs a new cache entry in front of the existing ones and executes
  that entry's specialized routine with its trace annotation.
\<close>

theorem compiler_result_interpreted:
  assumes "reaches_callback en fr throw_flag callback w"
    and "dynamo__custom_eval_frame en fr throw_flag callback w = (r, w')"
  shows "case callback_result en fr callback w of
      None \<Rightarrow>
        r = None \<and>
        extra_states w' = (extra_states w)(f_code fr \<mapsto> current_extra fr w) \<and>
        events w' = events w @ [CallbackSet Py_None, Lookup (f_code fr) Py_None,
          CallCallback callback (f_code fr), ClearFrame (f_code fr)]
    | Some res \<Rightarrow>
        if res = skip_code_recursive_flag then
          extra_states w' = (extra_states w)(f_code fr \<mapsto>
            (current_extra fr w)\<lparr>strategy := \<lparr>cur_action = SKIP, recursive_action = SKIP\<rparr>\<rparr>) \<and>
          r = fst (dynamo_eval_frame_default en fr throw_flag
                (if recursive_action (strategy (current_extra fr w)) = DEFAULT
                 then Py_None else callback)) \<and>
          events w' = events w @ [CallbackSet Py_None, Lookup (f_code fr) Py_None,
            CallCallback callback (f_code fr),
            CallbackSet (if recursive_action (strategy (current_extra fr w)) = DEFAULT
               then Py_None else callback),
            EvalDefault (f_code fr)
              (if recursive_action (strategy (current_extra fr w)) = DEFAULT
               then Py_None else callback)] @
            restore_events callback
              (if recursive_action (strategy (current_extra fr w)) = DEFAULT
               then Py_None else callback)
        else if res = cache_limit_hit_flag then
          extra_states w' = (extra_states w)(f_code fr \<mapsto>
            (current_extra fr w)\<lparr>strategy :=
              \<lparr>cur_action = RUN_ONLY, recursive_action = RUN_ONLY\<rparr>\<rparr>) \<and>
          r = fst (dynamo_eval_frame_default en fr throw_flag
                (if recursive_action (strategy (current_extra fr w)) = DEFAULT
                 then Py_False else callback)) \<and>
          events w' = events w @ [CallbackSet Py_None, Lookup (f_code fr) Py_None,
            CallCallback callback (f_code fr),
            CallbackSet (if recursive_action (strategy (current_extra fr w)) = DEFAULT
               then Py_False else callback),
            EvalDefault (f_code fr)
              (if recursive_action (strategy (current_extra fr w)) = DEFAULT
               then Py_False else callback)] @
            restore_events callback
              (if recursive_action (strategy (current_extra fr w)) = DEFAULT
               then Py_False else callback)
        else if res = Py_None then
          extra_states w' = (extra_states w)(f_code fr \<mapsto>
            (current_extra fr w)\<lparr>strategy :=
              \<lparr>cur_action = SKIP, recursive_action = DEFAULT\<rparr>\<rparr>) \<and>
          r = fst (dynamo_eval_frame_default en fr throw_flag callback) \<and>
          events w' = events w @ [CallbackSet Py_None, Lookup (f_code fr) Py_None,
            CallCallback callback (f_code fr), CallbackSet callback,
            EvalDefault (f_code fr) callback]
        else
          extra_states w' = (extra_states w)(f_code fr \<mapsto>
            (current_extra fr w)\<lparr>cache_entry_list :=
              new_cache_entry en res (get_backend en callback) #
              cache_entry_list (current_extra fr w)\<rparr>) \<and>
          r = fst (dynamo_eval_custom_code en fr
                (ce_code (new_cache_entry en res (get_backend en callback)))
                (ce_trace_annotation (new_cache_entry en res (get_backend en callback)))
                throw_flag callback) \<and>
          events w' = events w @ [CallbackSet Py_None, Lookup (f_code fr) Py_None,
            CallCallback callback (f_code fr), CallbackSet callback,
            EvalCustom (f_code fr)
              (ce_code (new_cache_entry en res (get_backend en callback)))
              (ce_trace_annotation (new_cache_entry en res (get_backend en callback)))
              callback,
            ClearFrame (f_code fr)]"
proof -
  have r: "r = fst (dynamo__custom_eval_frame en fr throw_flag callback w)"
    and w': "w' = snd (dynamo__custom_eval_frame en fr throw_flag callback w)"
    using assms(2) by simp_all
  show ?thesis
    unfolding r w' using reaches_callbackD[OF assms(1)]
    by (simp add: dispatch_unfold exit_proj restore_events_def split: option.splits)
qed

theorem compiler_result_interpreted_witness:
  "reaches_callback example_env example_frame False (PyObj 1) example_world \<and>
   callback_result example_env example_frame (PyObj 1) example_world = Some (PyObj 5) \<and>
   extra_states (snd (dynamo__custom_eval_frame example_env example_frame False (PyObj 1)
     example_world)) 0 =
     Some (initial_extra_state\<lparr>cache_entry_list :=
       [\<lparr>ce_guard = PyObj 5, ce_code = PyObj 6, ce_trace_annotation = ''compiled'',
         ce_backend = PyObj 1\<rparr>]\<rparr>) \<and>
   fst (dynamo__custom_eval_frame example_env example_frame False (PyObj 1) example_world) =
     Some (PyObj 8) \<and>
   events (snd (dynamo__custom_eval_frame example_env example_frame False (PyObj 1)
     example_world)) =
     [CallbackSet Py_None, Lookup 0 Py_None, CallCallback (PyObj 1) 0, CallbackSet (PyObj 1),
      EvalCustom 0 (PyObj 6) ''compiled'' (PyObj 1), ClearFrame 0]"
proof -
  have h: "reaches_callback example_env example_frame False (PyObj 1) example_world"
    by (simp add: path_defs run_only_mode_def lookup_result_def current_extra_def
        get_extra_state_def initial_extra_state_def example_defs)
  have c: "callback_result example_env example_frame (PyObj 1) example_world = Some (PyObj 5)"
    by (simp add: callback_result_def example_defs)
  show ?thesis
    using h c compiler_result_interpreted[OF h prod.collapse[symmetric]]
    by (simp add: current_extra_def get_extra_state_def new_cache_entry_def
        initial_extra_state_def example_defs)
qed

section \<open>The store after one invocation and after many\<close>

lemma reaches_callback_iff:
  "reaches_callback en fr throw_flag callback w \<longleftrightarrow>
     \<not> throw_flag \<and> callback \<noteq> Py_False \<and>
     cur_action (strategy (current_extra fr w)) = DEFAULT \<and>
     fst (lookup_result en fr callback w) = Some Py_None \<and>
     \<not> is_skip_guard_eval_unsafe en"
  by (cases "cur_action (strategy (current_extra fr w))")
     (auto simp: path_defs run_only_mode_def)

lemma store_early:
  assumes "throw_flag \<or> (callback = Py_False \<and> get_extra_state (f_code fr) w = None)"
  shows "extra_states (snd (dynamo__custom_eval_frame en fr throw_flag callback w)) =
           extra_states w"
  using assms by (auto simp: dispatch_unfold exit_proj)

lemma store_no_callback:
  assumes a: "\<not> throw_flag"
    and b: "\<not> (callback = Py_False \<and> get_extra_state (f_code fr) w = None)"
    and n: "\<not> reaches_callback en fr throw_flag callback w"
  shows "extra_states (snd (dynamo__custom_eval_frame en fr throw_flag callback w)) =
           (extra_states w)(f_code fr \<mapsto> current_extra fr w)"
proof -
  have c: "(callback = Py_False \<and> get_extra_state (f_code fr) w = None) = False"
    using b by simp
  have r: "cur_action (strategy (current_extra fr w)) \<noteq> SKIP \<Longrightarrow>
      fst (lookup_result en fr callback w) = Some Py_None \<Longrightarrow>
      \<not> is_skip_guard_eval_unsafe en \<Longrightarrow> run_only_mode fr callback w"
    using n a c by (simp add: path_defs)
  show ?thesis
  proof (cases "cur_action (strategy (current_extra fr w)) = SKIP")
    case True
    then show ?thesis
      by (simp add: dispatch_unfold exit_proj a c)
  next
    case ns: False
    show ?thesis
    proof (cases "fst (lookup_result en fr callback w) = Some Py_None")
      case False
      then show ?thesis
        by (simp add: dispatch_unfold exit_proj a c ns split: option.splits)
    next
      case miss: True
      show ?thesis
      proof (cases "is_skip_guard_eval_unsafe en")
        case True
        then show ?thesis
          by (simp add: dispatch_unfold exit_proj a c ns miss)
      next
        case False
        then have "run_only_mode fr callback w"
          using r ns miss by simp
        then show ?thesis
          by (simp add: dispatch_unfold exit_proj a c ns miss False)
      qed
    qed
  qed
qed

lemma store_callback:
  assumes "reaches_callback en fr throw_flag callback w"
  shows "extra_states (snd (dynamo__custom_eval_frame en fr throw_flag callback w)) =
     (case callback_result en fr callback w of
        None \<Rightarrow> (extra_states w)(f_code fr \<mapsto> current_extra fr w)
      | Some res \<Rightarrow>
          if res = skip_code_recursive_flag then
            (extra_states w)(f_code fr \<mapsto> (current_extra fr w)\<lparr>strategy :=
               \<lparr>cur_action = SKIP, recursive_action = SKIP\<rparr>\<rparr>)
          else if res = cache_limit_hit_flag then
            (extra_states w)(f_code fr \<mapsto> (current_extra fr w)\<lparr>strategy :=
               \<lparr>cur_action = RUN_ONLY, recursive_action = RUN_ONLY\<rparr>\<rparr>)
          else if res \<noteq> Py_None then
            (extra_states w)(f_code fr \<mapsto> (current_extra fr w)\<lparr>cache_entry_list :=
               new_cache_entry en res (get_backend en callback) #
               cache_entry_list (current_extra fr w)\<rparr>)
          else
            (extra_states w)(f_code fr \<mapsto> (current_extra fr w)\<lparr>strategy :=
               \<lparr>cur_action = SKIP, recursive_action = DEFAULT\<rparr>\<rparr>))"
  using reaches_callbackD[OF assms]
  by (simp add: dispatch_unfold exit_proj split: option.splits)

lemma current_extra_stored:
  "extra_states w (f_code fr) = Some e \<Longrightarrow> current_extra fr w = e"
  by (simp add: current_extra_def get_extra_state_def)

lemma store_other_routine:
  assumes "c \<noteq> f_code fr"
  shows "extra_states (snd (dynamo__custom_eval_frame en fr throw_flag callback w)) c =
           extra_states w c"
proof (cases "throw_flag \<or> (callback = Py_False \<and> get_extra_state (f_code fr) w = None)")
  case True
  then show ?thesis by (simp only: store_early)
next
  case False
  then have a: "\<not> throw_flag"
    and b: "\<not> (callback = Py_False \<and> get_extra_state (f_code fr) w = None)"
    by simp_all
  show ?thesis
  proof (cases "reaches_callback en fr throw_flag callback w")
    case True
    then show ?thesis
      using assms by (simp add: store_callback split: option.splits)
  next
    case False
    then show ?thesis
      using assms by (simp add: store_no_callback[OF a b False])
  qed
qed

lemma dispatch_preserves_settled:
  assumes "extra_states w c = Some e" and "cur_action (strategy e) \<noteq> DEFAULT"
  shows "extra_states (snd (dynamo__custom_eval_frame en fr throw_flag callback w)) c = Some e"
proof (cases "c = f_code fr")
  case True
  then have x: "current_extra fr w = e"
    using assms(1) by (simp add: current_extra_stored)
  have n: "\<not> reaches_callback en fr throw_flag callback w"
    using assms(2) x by (simp add: reaches_callback_iff)
  show ?thesis
  proof (cases "throw_flag \<or> (callback = Py_False \<and> get_extra_state (f_code fr) w = None)")
    case True
    then show ?thesis using assms(1) by (simp only: store_early)
  next
    case False
    then have a: "\<not> throw_flag"
      and b: "\<not> (callback = Py_False \<and> get_extra_state (f_code fr) w = None)"
      by simp_all
    show ?thesis
      using True x by (simp add: store_no_callback[OF a b n])
  qed
next
  case False
  then show ?thesis
    using assms(1) by (simp add: store_other_routine)
qed

lemma run_calls_preserves_settled:
  assumes "extra_states w c = Some e" and "cur_action (strategy e) \<noteq> DEFAULT"
  shows "extra_states (run_calls cs w) c = Some e"
  using assms
proof (induction cs arbitrary: w)
  case Nil
  then show ?case by simp
next
  case (Cons a cs)
  obtain en fr throw_flag callback where a: "a = (en, fr, throw_flag, callback)"
    by (cases a) auto
  show ?case
    unfolding a run_calls.simps
    by (rule Cons.IH[OF dispatch_preserves_settled[OF Cons.prems] Cons.prems(2)])
qed

section \<open>Execution strategies are terminal\<close>

text \<open>
  C9. One invocation leaves the strategy of any routine as it was, or creates the Extra
  State with \<open>(DEFAULT, DEFAULT)\<close>, or, on the compile path of a routine whose current
  action is DEFAULT, stores \<open>(SKIP, SKIP)\<close>, \<open>(RUN_ONLY, RUN_ONLY)\<close> or \<open>(SKIP, DEFAULT)\<close>
  when the compiler callback returns the skip-recursive flag, the cache-limit flag or
  \<open>Py_None\<close> respectively. So a current action of SKIP or RUN_ONLY is never turned back
  into DEFAULT, and a strategy whose current action is not DEFAULT is unchanged after any
  list of calls, whatever their frames, callbacks and collaborators.
\<close>

theorem strategy_only_moves_forward:
  "(strategy_of c (snd (dynamo__custom_eval_frame en fr throw_flag callback w)) = strategy_of c w
    \<or> (c = f_code fr \<and> strategy_of c w = None \<and>
        strategy_of c (snd (dynamo__custom_eval_frame en fr throw_flag callback w)) =
          Some \<lparr>cur_action = DEFAULT, recursive_action = DEFAULT\<rparr>)
    \<or> (c = f_code fr \<and> reaches_callback en fr throw_flag callback w \<and>
        cur_action (strategy (current_extra fr w)) = DEFAULT \<and>
        ((callback_result en fr callback w = Some skip_code_recursive_flag \<and>
          strategy_of c (snd (dynamo__custom_eval_frame en fr throw_flag callback w)) =
            Some \<lparr>cur_action = SKIP, recursive_action = SKIP\<rparr>)
         \<or> (callback_result en fr callback w = Some cache_limit_hit_flag \<and>
          strategy_of c (snd (dynamo__custom_eval_frame en fr throw_flag callback w)) =
            Some \<lparr>cur_action = RUN_ONLY, recursive_action = RUN_ONLY\<rparr>)
         \<or> (callback_result en fr callback w = Some Py_None \<and>
          strategy_of c (snd (dynamo__custom_eval_frame en fr throw_flag callback w)) =
            Some \<lparr>cur_action = SKIP, recursive_action = DEFAULT\<rparr>))))
   \<and> (\<forall>s. strategy_of c w = Some s \<and> cur_action s \<noteq> DEFAULT \<longrightarrow>
          strategy_of c (run_calls cs w) = Some s)"
proof (rule conjI)
  show "\<forall>s. strategy_of c w = Some s \<and> cur_action s \<noteq> DEFAULT \<longrightarrow>
          strategy_of c (run_calls cs w) = Some s"
  proof (intro allI impI)
    fix s
    assume h: "strategy_of c w = Some s \<and> cur_action s \<noteq> DEFAULT"
    then obtain e where e: "extra_states w c = Some e" and s: "strategy e = s"
      by (auto simp: strategy_of_def)
    have "extra_states (run_calls cs w) c = Some e"
      using e h s by (intro run_calls_preserves_settled) simp_all
    then show "strategy_of c (run_calls cs w) = Some s"
      using s by (simp add: strategy_of_def)
  qed
next
  let ?w' = "snd (dynamo__custom_eval_frame en fr throw_flag callback w)"
  show "strategy_of c ?w' = strategy_of c w
    \<or> (c = f_code fr \<and> strategy_of c w = None \<and>
        strategy_of c ?w' = Some \<lparr>cur_action = DEFAULT, recursive_action = DEFAULT\<rparr>)
    \<or> (c = f_code fr \<and> reaches_callback en fr throw_flag callback w \<and>
        cur_action (strategy (current_extra fr w)) = DEFAULT \<and>
        ((callback_result en fr callback w = Some skip_code_recursive_flag \<and>
          strategy_of c ?w' = Some \<lparr>cur_action = SKIP, recursive_action = SKIP\<rparr>)
         \<or> (callback_result en fr callback w = Some cache_limit_hit_flag \<and>
          strategy_of c ?w' = Some \<lparr>cur_action = RUN_ONLY, recursive_action = RUN_ONLY\<rparr>)
         \<or> (callback_result en fr callback w = Some Py_None \<and>
          strategy_of c ?w' = Some \<lparr>cur_action = SKIP, recursive_action = DEFAULT\<rparr>)))"
  proof (cases "c = f_code fr")
    case False
    then show ?thesis
      by (simp add: strategy_of_def store_other_routine)
  next
    case c: True
    have cur: "strategy_of c w = None \<Longrightarrow>
        strategy (current_extra fr w) = \<lparr>cur_action = DEFAULT, recursive_action = DEFAULT\<rparr>"
      using c by (simp add: strategy_of_def current_extra_def get_extra_state_def
          initial_extra_state_def)
    have cur': "strategy_of c w = Some s \<Longrightarrow> strategy (current_extra fr w) = s" for s
      using c by (auto simp: strategy_of_def current_extra_def get_extra_state_def)
    show ?thesis
    proof (cases "throw_flag \<or> (callback = Py_False \<and> get_extra_state (f_code fr) w = None)")
      case True
      then show ?thesis by (simp add: strategy_of_def store_early)
    next
      case False
      then have a: "\<not> throw_flag"
        and b: "\<not> (callback = Py_False \<and> get_extra_state (f_code fr) w = None)"
        by simp_all
      show ?thesis
      proof (cases "reaches_callback en fr throw_flag callback w")
        case False
        have "strategy_of c ?w' = Some (strategy (current_extra fr w))"
          using c by (simp add: strategy_of_def store_no_callback[OF a b False])
        then show ?thesis
          using cur cur' c by (cases "strategy_of c w") simp_all
      next
        case True
        have d: "cur_action (strategy (current_extra fr w)) = DEFAULT"
          using reaches_callbackD(3)[OF True] .
        show ?thesis
        proof (cases "callback_result en fr callback w")
          case None
          then have "strategy_of c ?w' = Some (strategy (current_extra fr w))"
            using c by (simp add: strategy_of_def store_callback[OF True])
          then show ?thesis
            using cur cur' c by (cases "strategy_of c w") simp_all
        next
          case (Some res)
          have other: "res \<noteq> skip_code_recursive_flag \<Longrightarrow> res \<noteq> cache_limit_hit_flag \<Longrightarrow>
              res \<noteq> Py_None \<Longrightarrow> strategy_of c ?w' = Some (strategy (current_extra fr w))"
            using c Some by (simp add: strategy_of_def store_callback[OF True])
          have sent: "res = skip_code_recursive_flag \<Longrightarrow>
              strategy_of c ?w' = Some \<lparr>cur_action = SKIP, recursive_action = SKIP\<rparr>"
            "res = cache_limit_hit_flag \<Longrightarrow>
              strategy_of c ?w' = Some \<lparr>cur_action = RUN_ONLY, recursive_action = RUN_ONLY\<rparr>"
            "res = Py_None \<Longrightarrow>
              strategy_of c ?w' = Some \<lparr>cur_action = SKIP, recursive_action = DEFAULT\<rparr>"
            using c Some by (simp_all add: strategy_of_def store_callback[OF True])
          show ?thesis
          proof (cases "res = skip_code_recursive_flag \<or> res = cache_limit_hit_flag \<or>
              res = Py_None")
            case True
            then show ?thesis
              using sent c \<open>reaches_callback en fr throw_flag callback w\<close> d Some by auto
          next
            case False
            then have "strategy_of c ?w' = Some (strategy (current_extra fr w))"
              using other by simp
            then show ?thesis
              using cur cur' c by (cases "strategy_of c w") simp_all
          qed
        qed
      qed
    qed
  qed
qed

theorem strategy_only_moves_forward_witness:
  "strategy_of 0 (example_world_with \<lparr>cur_action = SKIP, recursive_action = SKIP\<rparr>) =
     Some \<lparr>cur_action = SKIP, recursive_action = SKIP\<rparr> \<and>
   strategy_of 0
     (run_calls [(example_env, example_frame, False, PyObj 1),
                 (example_env, example_frame, False, PyObj 2)]
        (example_world_with \<lparr>cur_action = SKIP, recursive_action = SKIP\<rparr>)) =
     Some \<lparr>cur_action = SKIP, recursive_action = SKIP\<rparr>"
proof -
  let ?w = "example_world_with \<lparr>cur_action = SKIP, recursive_action = SKIP\<rparr>"
  have h: "strategy_of 0 ?w = Some \<lparr>cur_action = SKIP, recursive_action = SKIP\<rparr>"
    by (simp add: strategy_of_def initial_extra_state_def example_defs)
  show ?thesis
    using h strategy_only_moves_forward[of 0 example_env example_frame False "PyObj 1" ?w
        "[(example_env, example_frame, False, PyObj 1),
          (example_env, example_frame, False, PyObj 2)]"]
    by simp
qed

section \<open>Run-only mode\<close>

lemma run_only_no_callback_call:
  assumes "run_only_mode fr callback w"
  shows "filter is_callback_call (invocation_events en fr throw_flag callback w) = []"
  using assms
  by (simp add: invocation_events_unfold restore_events_def split: option.splits)

lemma run_only_mode_preserved:
  assumes "run_only_mode fr' callback' w"
  shows "run_only_mode fr' callback' (snd (dynamo__custom_eval_frame en fr throw_flag callback w))"
proof (cases "callback' = Py_False")
  case True
  then show ?thesis by (simp add: run_only_mode_def)
next
  case False
  then have r: "cur_action (strategy (current_extra fr' w)) = RUN_ONLY"
    using assms by (simp add: run_only_mode_def)
  then obtain e where e: "extra_states w (f_code fr') = Some e"
    by (cases "extra_states w (f_code fr')")
       (simp_all add: current_extra_def get_extra_state_def initial_extra_state_def)
  have s: "cur_action (strategy e) \<noteq> DEFAULT"
    using r current_extra_stored[OF e] by simp
  have "current_extra fr' (snd (dynamo__custom_eval_frame en fr throw_flag callback w)) = e"
    by (rule current_extra_stored[OF dispatch_preserves_settled[OF e s]])
  then show ?thesis
    using r current_extra_stored[OF e] by (simp add: run_only_mode_def)
qed

lemma run_calls_run_only:
  assumes "list_all (\<lambda>(en, fr, throw_flag, callback). run_only_mode fr callback w) cs"
  shows "filter is_callback_call (events (run_calls cs w)) = filter is_callback_call (events w)"
  using assms
proof (induction cs arbitrary: w)
  case Nil
  then show ?case by simp
next
  case (Cons a cs)
  obtain en fr throw_flag callback where a: "a = (en, fr, throw_flag, callback)"
    by (cases a) auto
  let ?w1 = "snd (dynamo__custom_eval_frame en fr throw_flag callback w)"
  have now: "run_only_mode fr callback w"
    using Cons.prems a by simp
  have later: "list_all (\<lambda>(en, fr, throw_flag, callback). run_only_mode fr callback ?w1) cs"
    using Cons.prems a by (auto simp: list_all_iff intro: run_only_mode_preserved)
  have "filter is_callback_call (events (run_calls cs ?w1)) = filter is_callback_call (events ?w1)"
    by (rule Cons.IH[OF later])
  also have "\<dots> = filter is_callback_call (events w)"
    by (simp add: events_extend run_only_no_callback_call[OF now])
  finally show ?case
    by (simp add: a)
qed

text \<open>
  C2, as the spec states it, fails in its last part: in run-only mode a cache miss under
  the unsafe skip-guard-eval mode does not default-execute. The test of line 172 comes
  before the test of line 182, so the dispatch fails with the recompilation error.
\<close>

theorem run_only_unsafe_miss_fails:
  "run_only_mode example_frame (PyObj 1)
     (example_world_with \<lparr>cur_action = RUN_ONLY, recursive_action = RUN_ONLY\<rparr>) \<and>
   cache_miss (example_env\<lparr>is_skip_guard_eval_unsafe := True\<rparr>) example_frame False (PyObj 1)
     (example_world_with \<lparr>cur_action = RUN_ONLY, recursive_action = RUN_ONLY\<rparr>) \<and>
   fst (dynamo__custom_eval_frame (example_env\<lparr>is_skip_guard_eval_unsafe := True\<rparr>)
     example_frame False (PyObj 1)
     (example_world_with \<lparr>cur_action = RUN_ONLY, recursive_action = RUN_ONLY\<rparr>)) = None \<and>
   filter is_eval_default
     (invocation_events (example_env\<lparr>is_skip_guard_eval_unsafe := True\<rparr>)
        example_frame False (PyObj 1)
        (example_world_with \<lparr>cur_action = RUN_ONLY, recursive_action = RUN_ONLY\<rparr>)) = [] \<and>
   invocation_events (example_env\<lparr>is_skip_guard_eval_unsafe := True\<rparr>)
     example_frame False (PyObj 1)
     (example_world_with \<lparr>cur_action = RUN_ONLY, recursive_action = RUN_ONLY\<rparr>) =
     [CallbackSet Py_None, Lookup 0 Py_None, ClearFrame 0]"
  by (simp add: invocation_events_unfold dispatch_unfold exit_proj path_defs run_only_mode_def
      lookup_result_def current_extra_def get_extra_state_def initial_extra_state_def
      example_defs)

text \<open>
  C2, amended. Over any list of calls each of which is in run-only mode (the routine's
  current action is RUN_ONLY, or the callback is \<open>Py_False\<close>) the compiler callback is
  never called, cache misses included. In run-only mode a cache miss default-executes,
  under the nested-call callback, unless the unsafe skip-guard-eval mode is active; then
  the dispatch fails with the recompilation error and executes nothing.
\<close>

theorem run_only_never_compiles:
  "(list_all (\<lambda>(en, fr, throw_flag, callback). run_only_mode fr callback w) cs \<longrightarrow>
      filter is_callback_call (events (run_calls cs w)) = filter is_callback_call (events w)) \<and>
   (run_only_mode fr callback w \<and> cache_miss en fr throw_flag callback w \<longrightarrow>
      filter is_callback_call (invocation_events en fr throw_flag callback w) = [] \<and>
      (if is_skip_guard_eval_unsafe en then
         fst (dynamo__custom_eval_frame en fr throw_flag callback w) = None \<and>
         py_err (snd (dynamo__custom_eval_frame en fr throw_flag callback w)) =
           Some (PyExc_RuntimeError, recompilation_message) \<and>
         invocation_events en fr throw_flag callback w =
           [CallbackSet Py_None, Lookup (f_code fr) Py_None, ClearFrame (f_code fr)]
       else
         fst (dynamo__custom_eval_frame en fr throw_flag callback w) =
           fst (dynamo_eval_frame_default en fr throw_flag
                  (recursive_callback_of (strategy (current_extra fr w)) callback)) \<and>
         invocation_events en fr throw_flag callback w =
           [CallbackSet Py_None, Lookup (f_code fr) Py_None,
            CallbackSet (recursive_callback_of (strategy (current_extra fr w)) callback),
            EvalDefault (f_code fr)
              (recursive_callback_of (strategy (current_extra fr w)) callback)] @
           restore_events callback
             (recursive_callback_of (strategy (current_extra fr w)) callback)))"
proof (intro conjI impI)
  assume "list_all (\<lambda>(en, fr, throw_flag, callback). run_only_mode fr callback w) cs"
  then show "filter is_callback_call (events (run_calls cs w)) =
      filter is_callback_call (events w)"
    by (rule run_calls_run_only)
next
  assume h: "run_only_mode fr callback w \<and> cache_miss en fr throw_flag callback w"
  then show "filter is_callback_call (invocation_events en fr throw_flag callback w) = []"
    by (simp add: run_only_no_callback_call)
next
  assume h: "run_only_mode fr callback w \<and> cache_miss en fr throw_flag callback w"
  then have m: "\<not> throw_flag"
    "(callback = Py_False \<and> get_extra_state (f_code fr) w = None) = False"
    "cur_action (strategy (current_extra fr w)) \<noteq> SKIP"
    "fst (lookup_result en fr callback w) = Some Py_None"
    "run_only_mode fr callback w"
    by (simp_all add: path_defs)
  show "if is_skip_guard_eval_unsafe en then
         fst (dynamo__custom_eval_frame en fr throw_flag callback w) = None \<and>
         py_err (snd (dynamo__custom_eval_frame en fr throw_flag callback w)) =
           Some (PyExc_RuntimeError, recompilation_message) \<and>
         invocation_events en fr throw_flag callback w =
           [CallbackSet Py_None, Lookup (f_code fr) Py_None, ClearFrame (f_code fr)]
       else
         fst (dynamo__custom_eval_frame en fr throw_flag callback w) =
           fst (dynamo_eval_frame_default en fr throw_flag
                  (recursive_callback_of (strategy (current_extra fr w)) callback)) \<and>
         invocation_events en fr throw_flag callback w =
           [CallbackSet Py_None, Lookup (f_code fr) Py_None,
            CallbackSet (recursive_callback_of (strategy (current_extra fr w)) callback),
            EvalDefault (f_code fr)
              (recursive_callback_of (strategy (current_extra fr w)) callback)] @
           restore_events callback
             (recursive_callback_of (strategy (current_extra fr w)) callback)"
    by (simp add: m invocation_events_unfold dispatch_unfold exit_proj)
qed

theorem run_only_never_compiles_witness:
  "list_all (\<lambda>(en, fr, throw_flag, callback). run_only_mode fr callback
       (example_world_with \<lparr>cur_action = RUN_ONLY, recursive_action = RUN_ONLY\<rparr>))
     [(example_env, example_frame, False, PyObj 1),
      (example_env, example_frame, False, Py_False)] \<and>
   filter is_callback_call (events (run_calls
     [(example_env, example_frame, False, PyObj 1),
      (example_env, example_frame, False, Py_False)]
     (example_world_with \<lparr>cur_action = RUN_ONLY, recursive_action = RUN_ONLY\<rparr>))) = [] \<and>
   cache_miss example_env example_frame False (PyObj 1)
     (example_world_with \<lparr>cur_action = RUN_ONLY, recursive_action = RUN_ONLY\<rparr>) \<and>
   fst (dynamo__custom_eval_frame example_env example_frame False (PyObj 1)
     (example_world_with \<lparr>cur_action = RUN_ONLY, recursive_action = RUN_ONLY\<rparr>)) =
     Some (PyObj 9) \<and>
   invocation_events example_env example_frame False (PyObj 1)
     (example_world_with \<lparr>cur_action = RUN_ONLY, recursive_action = RUN_ONLY\<rparr>) =
     [CallbackSet Py_None, Lookup 0 Py_None, CallbackSet Py_False, EvalDefault 0 Py_False,
      CallbackSet (PyObj 1)]"
proof -
  let ?w = "example_world_with \<lparr>cur_action = RUN_ONLY, recursive_action = RUN_ONLY\<rparr>"
  let ?cs = "[(example_env, example_frame, False, PyObj 1),
      (example_env, example_frame, False, Py_False)]"
  have x: "current_extra example_frame ?w =
      initial_extra_state\<lparr>strategy := \<lparr>cur_action = RUN_ONLY, recursive_action = RUN_ONLY\<rparr>\<rparr>"
    by (simp add: current_extra_def get_extra_state_def example_defs)
  have m: "run_only_mode example_frame cb ?w" for cb
    by (simp add: run_only_mode_def x)
  have l: "list_all (\<lambda>(en, fr, throw_flag, callback). run_only_mode fr callback ?w) ?cs"
    by (simp add: m)
  have c: "cache_miss example_env example_frame False (PyObj 1) ?w"
    by (simp add: path_defs x lookup_result_def) (simp add: example_defs)
  have rc: "recursive_callback_of (strategy (current_extra example_frame ?w)) (PyObj 1) =
      Py_False"
    by (simp add: x recursive_callback_of_def)
  have e: "events ?w = []" "is_skip_guard_eval_unsafe example_env = False"
    "dynamo_eval_frame_default example_env example_frame False Py_False =
       (Some (PyObj 9), Py_False)"
    "f_code example_frame = 0"
    by (simp_all add: example_defs)
  show ?thesis
    using l c m[of "PyObj 1"] rc e
      run_only_never_compiles[of ?w ?cs example_frame "PyObj 1" example_env False]
    by (simp add: restore_events_def)
qed

section \<open>Cache hits\<close>

text \<open>
  C5. Take a routine with an Extra State for which guard lookup, on the current locals,
  reports a match: a specialized routine other than \<open>Py_None\<close> and its trace annotation.
  Then the invocation never calls the compiler callback, and any custom execution it
  performs is of exactly that routine with exactly that annotation. Whenever the lookup
  is reached (no unwind flag, current action not SKIP) the invocation is that custom
  execution: it runs the matched routine once, runs no default execution, and returns
  its result.
\<close>

theorem cache_hit_never_compiles:
  assumes "get_extra_state (f_code fr) w = Some extra"
    and "lookup_result en fr callback w = (Some code, ann)"
    and "code \<noteq> Py_None"
  shows "filter is_callback_call (invocation_events en fr throw_flag callback w) = [] \<and>
         set (custom_runs (invocation_events en fr throw_flag callback w)) \<subseteq> {(code, ann)} \<and>
         (\<not> throw_flag \<and> cur_action (strategy extra) \<noteq> SKIP \<longrightarrow>
            custom_runs (invocation_events en fr throw_flag callback w) = [(code, ann)] \<and>
            filter is_eval_default (invocation_events en fr throw_flag callback w) = [] \<and>
            fst (dynamo__custom_eval_frame en fr throw_flag callback w) =
              fst (dynamo_eval_custom_code en fr code ann throw_flag
                     (recursive_callback_of (strategy extra) callback)))"
proof -
  have x: "current_extra fr w = extra"
    using assms(1) by (simp add: current_extra_def)
  have l: "fst (lookup_result en fr callback w) = Some code"
    "snd (lookup_result en fr callback w) = ann"
    using assms(2) by simp_all
  show ?thesis
    using assms(1,3) x l
    by (simp add: invocation_events_unfold dispatch_unfold exit_proj restore_events_def)
qed

theorem cache_hit_never_compiles_witness:
  "get_extra_state (f_code example_frame)
     (example_world_with \<lparr>cur_action = DEFAULT, recursive_action = DEFAULT\<rparr>) =
     Some (initial_extra_state\<lparr>strategy :=
       \<lparr>cur_action = DEFAULT, recursive_action = DEFAULT\<rparr>\<rparr>) \<and>
   invocation_events
     (example_env\<lparr>lookup := (\<lambda>extra locals backend unsafe. (Some (PyObj 6), ''compiled''))\<rparr>)
     example_frame False (PyObj 1)
     (example_world_with \<lparr>cur_action = DEFAULT, recursive_action = DEFAULT\<rparr>) =
     [CallbackSet Py_None, Lookup 0 Py_None, CallbackSet (PyObj 1),
      EvalCustom 0 (PyObj 6) ''compiled'' (PyObj 1), ClearFrame 0] \<and>
   fst (dynamo__custom_eval_frame
     (example_env\<lparr>lookup := (\<lambda>extra locals backend unsafe. (Some (PyObj 6), ''compiled''))\<rparr>)
     example_frame False (PyObj 1)
     (example_world_with \<lparr>cur_action = DEFAULT, recursive_action = DEFAULT\<rparr>)) =
     Some (PyObj 8)"
proof -
  let ?en = "example_env\<lparr>lookup :=
    (\<lambda>extra locals backend unsafe. (Some (PyObj 6), ''compiled''))\<rparr>"
  let ?w = "example_world_with \<lparr>cur_action = DEFAULT, recursive_action = DEFAULT\<rparr>"
  have e: "get_extra_state (f_code example_frame) ?w =
      Some (initial_extra_state\<lparr>strategy :=
        \<lparr>cur_action = DEFAULT, recursive_action = DEFAULT\<rparr>\<rparr>)"
    by (simp add: get_extra_state_def example_defs)
  have l: "lookup_result ?en example_frame (PyObj 1) ?w = (Some (PyObj 6), ''compiled'')"
    by (simp add: lookup_result_def)
  have n: "PyObj 6 \<noteq> Py_None"
    by simp
  have ev: "invocation_events ?en example_frame False (PyObj 1) ?w =
     [CallbackSet Py_None, Lookup 0 Py_None, CallbackSet (PyObj 1),
      EvalCustom 0 (PyObj 6) ''compiled'' (PyObj 1), ClearFrame 0]"
    by (simp add: invocation_events_unfold lookup_result_def current_extra_def
        get_extra_state_def initial_extra_state_def example_defs recursive_callback_of_def
        restore_events_def)
  show ?thesis
    using e ev cache_hit_never_compiles[OF e l n, of False]
    by (simp add: recursive_callback_of_def example_defs)
qed

section \<open>The nested-call callback under a DEFAULT current action\<close>

lemma exec_callbacks_unfold:
  "exec_callbacks (invocation_events en fr throw_flag callback w) =
     (if throw_flag then [eval_frame_callback w]
      else if callback = Py_False \<and> get_extra_state (f_code fr) w = None then [callback]
      else if cur_action (strategy (current_extra fr w)) = SKIP then
        [recursive_callback_of (strategy (current_extra fr w)) callback]
      else
        (case fst (lookup_result en fr callback w) of
           None \<Rightarrow> []
         | Some c \<Rightarrow>
             if c \<noteq> Py_None then
               [recursive_callback_of (strategy (current_extra fr w)) callback]
             else if is_skip_guard_eval_unsafe en then []
             else if run_only_mode fr callback w then
               [recursive_callback_of (strategy (current_extra fr w)) callback]
             else
               (case callback_result en fr callback w of
                  None \<Rightarrow> []
                | Some res \<Rightarrow>
                    if res = skip_code_recursive_flag then
                      [if recursive_action (strategy (current_extra fr w)) = DEFAULT
                       then Py_None else callback]
                    else if res = cache_limit_hit_flag then
                      [if recursive_action (strategy (current_extra fr w)) = DEFAULT
                       then Py_False else callback]
                    else [callback])))"
  by (simp add: invocation_events_unfold event_list_simps split: option.splits)

text \<open>
  C10. When the current action is DEFAULT, lines 111 to 117 do not consult the stored
  recursive action. On every path that executes the routine there is exactly one
  execution, and it runs under the caller's callback (under the register as the caller
  left it, on the unwind bypass), except when the compiler callback returns the
  skip-recursive or the cache-limit flag and the stored recursive action is DEFAULT:
  then it runs under \<open>Py_None\<close> or \<open>Py_False\<close>. In particular, with a stored recursive action
  of SKIP or RUN_ONLY the execution runs under the caller's callback whatever the
  compiler returns. Only on the failure exits is nothing executed.
\<close>

theorem default_action_ignores_recursive_action:
  assumes "cur_action (strategy (current_extra fr w)) = DEFAULT"
  shows "exec_callbacks (invocation_events en fr throw_flag callback w) =
           (if exits_by_failure en fr throw_flag callback w then []
            else if throw_flag then [eval_frame_callback w]
            else if reaches_callback en fr throw_flag callback w \<and>
                    recursive_action (strategy (current_extra fr w)) = DEFAULT \<and>
                    callback_result en fr callback w = Some skip_code_recursive_flag
              then [Py_None]
            else if reaches_callback en fr throw_flag callback w \<and>
                    recursive_action (strategy (current_extra fr w)) = DEFAULT \<and>
                    callback_result en fr callback w = Some cache_limit_hit_flag
              then [Py_False]
            else [callback]) \<and>
         (recursive_action (strategy (current_extra fr w)) \<noteq> DEFAULT \<and> \<not> throw_flag \<and>
          \<not> exits_by_failure en fr throw_flag callback w \<longrightarrow>
            exec_callbacks (invocation_events en fr throw_flag callback w) = [callback])"
proof -
  let ?E = "exec_callbacks (invocation_events en fr throw_flag callback w)"
  let ?X = "current_extra fr w"
  have rc: "recursive_callback_of (strategy ?X) callback = callback"
    using assms by (simp add: recursive_callback_of_def)
  have ns: "cur_action (strategy ?X) \<noteq> SKIP"
    using assms by simp
  have ro: "run_only_mode fr callback w \<longleftrightarrow> callback = Py_False"
    using assms by (simp add: run_only_mode_def)
  have main: "?E =
           (if exits_by_failure en fr throw_flag callback w then []
            else if throw_flag then [eval_frame_callback w]
            else if reaches_callback en fr throw_flag callback w \<and>
                    recursive_action (strategy ?X) = DEFAULT \<and>
                    callback_result en fr callback w = Some skip_code_recursive_flag
              then [Py_None]
            else if reaches_callback en fr throw_flag callback w \<and>
                    recursive_action (strategy ?X) = DEFAULT \<and>
                    callback_result en fr callback w = Some cache_limit_hit_flag
              then [Py_False]
            else [callback])"
  proof (cases "throw_flag \<or> (callback = Py_False \<and> get_extra_state (f_code fr) w = None)")
    case True
    then show ?thesis
      by (auto simp: exec_callbacks_unfold exits_by_failure_def reaches_lookup_def
          reaches_callback_iff)
  next
    case False
    then have a: "\<not> throw_flag"
      and c: "(callback = Py_False \<and> get_extra_state (f_code fr) w = None) = False"
      by simp_all
    show ?thesis
    proof (cases "fst (lookup_result en fr callback w)")
      case None
      then show ?thesis
        by (simp add: exec_callbacks_unfold exits_by_failure_def reaches_lookup_def a c ns)
    next
      case (Some x)
      show ?thesis
      proof (cases "x = Py_None")
        case False
        then show ?thesis
          using Some
          by (simp add: exec_callbacks_unfold exits_by_failure_def reaches_callback_iff
              reaches_lookup_def a c ns rc)
      next
        case True
        then have L: "fst (lookup_result en fr callback w) = Some Py_None"
          using Some by simp
        show ?thesis
        proof (cases "is_skip_guard_eval_unsafe en")
          case True
          then show ?thesis
            by (simp add: exec_callbacks_unfold exits_by_failure_def reaches_lookup_def a c ns L)
        next
          case safe: False
          show ?thesis
          proof (cases "callback = Py_False")
            case True
            then have rm: "run_only_mode fr callback w"
              and nrb: "\<not> reaches_callback en fr throw_flag callback w"
              using ro by (simp_all add: reaches_callback_iff)
            show ?thesis
              using a rm nrb
              by (simp add: exec_callbacks_unfold exits_by_failure_def reaches_lookup_def
                  c ns L safe rc)
          next
            case full: False
            show ?thesis
            proof (cases "callback_result en fr callback w")
              case None
              then show ?thesis
                by (simp add: exec_callbacks_unfold exits_by_failure_def reaches_lookup_def a c ns L safe ro
                    full)
            next
              case (Some res)
              then show ?thesis
                by (simp add: exec_callbacks_unfold exits_by_failure_def reaches_lookup_def reaches_callback_iff assms
                    a c ns L safe ro full)
            qed
          qed
        qed
      qed
    qed
  qed
  show ?thesis
  proof (intro conjI impI)
    show "?E =
           (if exits_by_failure en fr throw_flag callback w then []
            else if throw_flag then [eval_frame_callback w]
            else if reaches_callback en fr throw_flag callback w \<and>
                    recursive_action (strategy ?X) = DEFAULT \<and>
                    callback_result en fr callback w = Some skip_code_recursive_flag
              then [Py_None]
            else if reaches_callback en fr throw_flag callback w \<and>
                    recursive_action (strategy ?X) = DEFAULT \<and>
                    callback_result en fr callback w = Some cache_limit_hit_flag
              then [Py_False]
            else [callback])"
      by (rule main)
  next
    assume "recursive_action (strategy ?X) \<noteq> DEFAULT \<and> \<not> throw_flag \<and>
        \<not> exits_by_failure en fr throw_flag callback w"
    then show "?E = [callback]"
      unfolding main by auto
  qed
qed

theorem default_action_ignores_recursive_action_witness:
  "cur_action (strategy (current_extra example_frame
     (example_world_with \<lparr>cur_action = DEFAULT, recursive_action = RUN_ONLY\<rparr>))) = DEFAULT \<and>
   \<not> exits_by_failure
     (example_env\<lparr>dynamo_call_callback :=
        (\<lambda>cb fr locals entries fstate. Some skip_code_recursive_flag)\<rparr>)
     example_frame False (PyObj 1)
     (example_world_with \<lparr>cur_action = DEFAULT, recursive_action = RUN_ONLY\<rparr>) \<and>
   callback_result
     (example_env\<lparr>dynamo_call_callback :=
        (\<lambda>cb fr locals entries fstate. Some skip_code_recursive_flag)\<rparr>)
     example_frame (PyObj 1)
     (example_world_with \<lparr>cur_action = DEFAULT, recursive_action = RUN_ONLY\<rparr>) =
     Some skip_code_recursive_flag \<and>
   exec_callbacks (invocation_events
     (example_env\<lparr>dynamo_call_callback :=
        (\<lambda>cb fr locals entries fstate. Some skip_code_recursive_flag)\<rparr>)
     example_frame False (PyObj 1)
     (example_world_with \<lparr>cur_action = DEFAULT, recursive_action = RUN_ONLY\<rparr>)) =
     [PyObj 1]"
proof -
  let ?w = "example_world_with \<lparr>cur_action = DEFAULT, recursive_action = RUN_ONLY\<rparr>"
  let ?en = "example_env\<lparr>dynamo_call_callback :=
        (\<lambda>cb fr locals entries fstate. Some skip_code_recursive_flag)\<rparr>"
  have x: "current_extra example_frame ?w =
      initial_extra_state\<lparr>strategy := \<lparr>cur_action = DEFAULT, recursive_action = RUN_ONLY\<rparr>\<rparr>"
    by (simp add: current_extra_def get_extra_state_def example_defs)
  have d: "cur_action (strategy (current_extra example_frame ?w)) = DEFAULT"
    by (simp add: x)
  have k: "callback_result ?en example_frame (PyObj 1) ?w = Some skip_code_recursive_flag"
    by (simp add: callback_result_def)
  have f: "\<not> exits_by_failure ?en example_frame False (PyObj 1) ?w"
    using k by (simp add: exits_by_failure_def lookup_result_def run_only_mode_def x)
      (simp add: example_defs)
  have r: "recursive_action (strategy (current_extra example_frame ?w)) = RUN_ONLY"
    by (simp add: x)
  show ?thesis
    using d k f r default_action_ignores_recursive_action[OF d, of ?en False "PyObj 1"]
    by simp
qed

section \<open>The callback register around guard lookup\<close>

text \<open>
  C3, as the spec states it, fails in three ways. When guard evaluation fails, the
  dispatch returns with the register still disabled, although the caller's callback was
  another. When the routine's strategy is \<open>(RUN_ONLY, RUN_ONLY)\<close> and the lookup hits, the
  callback installed after the lookup is the run-only sentinel, and the caller's
  callback comes back only after the execution. On a genuine miss the compiler callback
  is called right after the lookup, while the register is still disabled.
\<close>

theorem callback_not_restored_as_stated:
  "\<not> restored_after_lookup (PyObj 1)
      (invocation_events
         (example_env\<lparr>lookup := (\<lambda>extra locals backend unsafe. (None, []))\<rparr>)
         example_frame False (PyObj 1)
         (example_world_cached \<lparr>cur_action = DEFAULT, recursive_action = DEFAULT\<rparr>)) \<and>
   eval_frame_callback (snd (dynamo__custom_eval_frame
     (example_env\<lparr>lookup := (\<lambda>extra locals backend unsafe. (None, []))\<rparr>)
     example_frame False (PyObj 1)
     (example_world_cached \<lparr>cur_action = DEFAULT, recursive_action = DEFAULT\<rparr>))) =
     Py_None \<and>
   invocation_events
     (example_env\<lparr>lookup := (\<lambda>extra locals backend unsafe. (None, []))\<rparr>)
     example_frame False (PyObj 1)
     (example_world_cached \<lparr>cur_action = DEFAULT, recursive_action = DEFAULT\<rparr>) =
     [CallbackSet Py_None, Lookup 0 Py_None, ClearFrame 0] \<and>
   \<not> restored_after_lookup (PyObj 1)
      (invocation_events (example_env\<lparr>lookup := example_lookup_hit\<rparr>)
         example_frame False (PyObj 1)
         (example_world_cached \<lparr>cur_action = RUN_ONLY, recursive_action = RUN_ONLY\<rparr>)) \<and>
   invocation_events (example_env\<lparr>lookup := example_lookup_hit\<rparr>)
     example_frame False (PyObj 1)
     (example_world_cached \<lparr>cur_action = RUN_ONLY, recursive_action = RUN_ONLY\<rparr>) =
     [CallbackSet Py_None, Lookup 0 Py_None, CallbackSet Py_False,
      EvalCustom 0 (PyObj 6) ''compiled'' Py_False, CallbackSet (PyObj 1), ClearFrame 0] \<and>
   \<not> restored_after_lookup (PyObj 1)
      (invocation_events example_env example_frame False (PyObj 1) example_world) \<and>
   invocation_events example_env example_frame False (PyObj 1) example_world =
     [CallbackSet Py_None, Lookup 0 Py_None, CallCallback (PyObj 1) 0, CallbackSet (PyObj 1),
      EvalCustom 0 (PyObj 6) ''compiled'' (PyObj 1), ClearFrame 0]"
  by (simp add: invocation_events_unfold dispatch_unfold exit_proj lookup_result_def
      callback_result_def run_only_mode_def recursive_callback_of_def restore_events_def
      new_cache_entry_def current_extra_def get_extra_state_def initial_extra_state_def
      example_defs)

text \<open>
  C3, amended. Whenever the dispatch reaches guard lookup, it disables the register
  immediately before the lookup, which runs under \<open>Py_None\<close>. On the exits that execute
  nothing (guard failure, a miss in unsafe mode, a null compiler result) the result is
  null and the register is not written again: it is still disabled on return. On every
  other path exactly one execution follows, default or specialized. The register is set
  immediately before it to the nested-call callback: the caller's callback, unless the
  strategy or a compiler flag puts a sentinel in its place, and then the caller's
  callback is written back right after the execution. Only the compiler call, on a
  genuine miss, comes between the lookup and that write; so on a hit or a run-only miss
  without a sentinel the caller's callback is restored immediately after the lookup, as
  the spec has it.
\<close>

theorem lookup_runs_under_disabled_callback:
  assumes "reaches_lookup fr throw_flag callback w"
    and "dynamo__custom_eval_frame en fr throw_flag callback w = (r, w')"
  shows "(\<exists>rest. events w' = events w @ CallbackSet Py_None # Lookup (f_code fr) Py_None # rest \<and>
     (if exits_by_failure en fr throw_flag callback w then
        r = None \<and> eval_frame_callback w' = Py_None \<and>
        rest = (if reaches_callback en fr throw_flag callback w
                then [CallCallback callback (f_code fr)] else []) @ [ClearFrame (f_code fr)]
      else
        \<exists>ex post.
          rest = (if reaches_callback en fr throw_flag callback w
                  then [CallCallback callback (f_code fr)] else []) @
                 CallbackSet (nested_callback en fr throw_flag callback w) # ex #
                 restore_events callback (nested_callback en fr throw_flag callback w) @ post \<and>
          ((ex = EvalDefault (f_code fr) (nested_callback en fr throw_flag callback w) \<and>
            post = []) \<or>
           (\<exists>code ann.
              ex = EvalCustom (f_code fr) code ann
                     (nested_callback en fr throw_flag callback w) \<and>
              post = [ClearFrame (f_code fr)])) \<and>
          (callback \<noteq> nested_callback en fr throw_flag callback w \<longrightarrow>
             eval_frame_callback w' = callback))) \<and>
    (\<not> exits_by_failure en fr throw_flag callback w \<and>
     \<not> reaches_callback en fr throw_flag callback w \<and>
     nested_callback en fr throw_flag callback w = callback \<longrightarrow>
       restored_after_lookup callback (invocation_events en fr throw_flag callback w))"
proof -
  let ?c = "f_code fr"
  let ?X = "current_extra fr w"
  let ?rc = "recursive_callback_of (strategy ?X) callback"
  let ?L = "fst (lookup_result en fr callback w)"
  let ?I = "invocation_events en fr throw_flag callback w"
  let ?F = "exits_by_failure en fr throw_flag callback w"
  let ?RB = "reaches_callback en fr throw_flag callback w"
  let ?n = "nested_callback en fr throw_flag callback w"
  let ?pre = "if ?RB then [CallCallback callback ?c] else []"
  let ?P = "\<lambda>rest. if ?F then
        r = None \<and> eval_frame_callback w' = Py_None \<and> rest = ?pre @ [ClearFrame ?c]
      else
        \<exists>ex post.
          rest = ?pre @ CallbackSet ?n # ex # restore_events callback ?n @ post \<and>
          ((ex = EvalDefault ?c ?n \<and> post = []) \<or>
           (\<exists>code ann. ex = EvalCustom ?c code ann ?n \<and> post = [ClearFrame ?c])) \<and>
          (callback \<noteq> ?n \<longrightarrow> eval_frame_callback w' = callback)"
  have r: "r = fst (dynamo__custom_eval_frame en fr throw_flag callback w)"
    and w': "w' = snd (dynamo__custom_eval_frame en fr throw_flag callback w)"
    using assms(2) by simp_all
  have a: "\<not> throw_flag"
    and c: "(callback = Py_False \<and> get_extra_state (f_code fr) w = None) = False"
    and ns: "cur_action (strategy ?X) \<noteq> SKIP"
    using assms(1) by (simp_all add: reaches_lookup_def)
  have ev: "events w' = events w @ ?I"
    unfolding w' by (rule events_extend)
  have failI: "?P (?pre @ [ClearFrame ?c])"
    if "?F" "r = None" "eval_frame_callback w' = Py_None"
    using that by simp
  have runI: "?P (?pre @ CallbackSet ?n # ex # restore_events callback ?n @ post)"
    if "\<not> ?F" "(ex = EvalDefault ?c ?n \<and> post = []) \<or>
        (\<exists>code ann. ex = EvalCustom ?c code ann ?n \<and> post = [ClearFrame ?c])"
      "callback \<noteq> ?n \<longrightarrow> eval_frame_callback w' = callback"
    for ex post
    using that by auto
  have shape: "\<exists>rest. ?I = CallbackSet Py_None # Lookup ?c Py_None # rest \<and> ?P rest"
  proof (cases ?L)
    case None
    have F: "?F" and RB: "\<not> ?RB"
      using assms(1) None by (simp_all add: exits_by_failure_def reaches_callback_iff)
    have I: "?I = CallbackSet Py_None # Lookup ?c Py_None # ?pre @ [ClearFrame ?c]"
      using a None RB by (simp add: invocation_events_unfold c ns)
    have R: "r = None" "eval_frame_callback w' = Py_None"
      unfolding r w' using a None by (simp_all add: dispatch_unfold exit_proj c ns)
    show ?thesis
      using I failI[OF F R] by blast
  next
    case (Some x)
    show ?thesis
    proof (cases "x = Py_None")
      case hit: False
      have F: "\<not> ?F" and RB: "\<not> ?RB"
        using assms(1) Some hit by (simp_all add: exits_by_failure_def reaches_callback_iff)
      have N: "?n = ?rc"
        using RB by (simp add: nested_callback_def)
      have I: "?I = CallbackSet Py_None # Lookup ?c Py_None # ?pre @ CallbackSet ?n #
          EvalCustom ?c x (snd (lookup_result en fr callback w)) ?n #
          restore_events callback ?n @ [ClearFrame ?c]"
        using a Some hit RB N by (simp add: invocation_events_unfold c ns)
      have G: "callback \<noteq> ?n \<longrightarrow> eval_frame_callback w' = callback"
        unfolding w' N using a Some hit by (simp add: dispatch_unfold exit_proj c ns)
      show ?thesis
        using I runI[OF F _ G, of "EvalCustom ?c x (snd (lookup_result en fr callback w)) ?n"
            "[ClearFrame ?c]"]
        by blast
    next
      case True
      then have L: "?L = Some Py_None"
        using Some by simp
      show ?thesis
      proof (cases "is_skip_guard_eval_unsafe en")
        case True
        have F: "?F" and RB: "\<not> ?RB"
          using assms(1) L True by (simp_all add: exits_by_failure_def reaches_callback_iff)
        have I: "?I = CallbackSet Py_None # Lookup ?c Py_None # ?pre @ [ClearFrame ?c]"
          using a L True RB by (simp add: invocation_events_unfold c ns)
        have R: "r = None" "eval_frame_callback w' = Py_None"
          unfolding r w' using a L True by (simp_all add: dispatch_unfold exit_proj c ns)
        show ?thesis
          using I failI[OF F R] by blast
      next
        case safe: False
        show ?thesis
        proof (cases "run_only_mode fr callback w")
          case True
          have F: "\<not> ?F"
            using L safe True by (simp add: exits_by_failure_def)
          have RB: "\<not> ?RB"
            using True by (simp add: reaches_callback_def)
          have N: "?n = ?rc"
            using RB by (simp add: nested_callback_def)
          have I: "?I = CallbackSet Py_None # Lookup ?c Py_None # ?pre @ CallbackSet ?n #
              EvalDefault ?c ?n # restore_events callback ?n @ []"
            using a L safe True RB N by (simp add: invocation_events_unfold c ns)
          have G: "callback \<noteq> ?n \<longrightarrow> eval_frame_callback w' = callback"
            unfolding w' N using a L safe True by (simp add: dispatch_unfold exit_proj c ns)
          show ?thesis
            using I runI[OF F _ G, of "EvalDefault ?c ?n" "[]"] by blast
        next
          case full: False
          have RB: "?RB"
            using assms(1) L safe full by (simp add: reaches_callback_def cache_miss_def)
          have d: "cur_action (strategy ?X) = DEFAULT"
            by (rule reaches_callbackD(3)[OF RB])
          have rc: "?rc = callback"
            using d by (simp add: recursive_callback_of_def)
          show ?thesis
          proof (cases "callback_result en fr callback w")
            case None
            have F: "?F"
              using assms(1) L full None by (simp add: exits_by_failure_def)
            have I: "?I = CallbackSet Py_None # Lookup ?c Py_None # ?pre @ [ClearFrame ?c]"
              using a L safe full None RB by (simp add: invocation_events_unfold c ns)
            have R: "r = None" "eval_frame_callback w' = Py_None"
              unfolding r w' using a L safe full None
              by (simp_all add: dispatch_unfold exit_proj c ns)
            show ?thesis
              using I failI[OF F R] by blast
          next
            case (Some res)
            have F: "\<not> ?F"
              using L safe Some by (simp add: exits_by_failure_def)
            have N: "?n =
                (if recursive_action (strategy ?X) = DEFAULT \<and> res = skip_code_recursive_flag
                 then Py_None
                 else if recursive_action (strategy ?X) = DEFAULT \<and> res = cache_limit_hit_flag
                 then Py_False else callback)"
              using RB Some rc by (simp add: nested_callback_def)
            let ?ex = "if res = skip_code_recursive_flag \<or> res = cache_limit_hit_flag \<or>
                res = Py_None
              then EvalDefault ?c ?n
              else EvalCustom ?c (ce_code (new_cache_entry en res (get_backend en callback)))
                (ce_trace_annotation (new_cache_entry en res (get_backend en callback))) ?n"
            let ?post = "if res = skip_code_recursive_flag \<or> res = cache_limit_hit_flag \<or>
                res = Py_None then [] else [ClearFrame ?c]"
            have I: "?I = CallbackSet Py_None # Lookup ?c Py_None # ?pre @ CallbackSet ?n #
                ?ex # restore_events callback ?n @ ?post"
              using a L safe full Some RB N
              by (simp add: invocation_events_unfold c ns restore_events_def)
            have G: "callback \<noteq> ?n \<longrightarrow> eval_frame_callback w' = callback"
              unfolding w' N using a L safe full Some
              by (simp add: dispatch_unfold exit_proj c ns)
            have E: "(?ex = EvalDefault ?c ?n \<and> ?post = []) \<or>
                (\<exists>code ann. ?ex = EvalCustom ?c code ann ?n \<and> ?post = [ClearFrame ?c])"
              by simp
            show ?thesis
              using I runI[OF F E G] by blast
          qed
        qed
      qed
    qed
  qed
  have first: "\<exists>rest. events w' = events w @ CallbackSet Py_None # Lookup ?c Py_None # rest \<and>
      ?P rest"
    using shape unfolding ev by auto
  have second: "\<not> ?F \<and> \<not> ?RB \<and> ?n = callback \<longrightarrow> restored_after_lookup callback ?I"
  proof (intro impI, elim conjE)
    assume F: "\<not> ?F" and RB: "\<not> ?RB" and N: "?n = callback"
    from shape obtain rest where I: "?I = CallbackSet Py_None # Lookup ?c Py_None # rest"
      and P: "?P rest"
      by blast
    from P F obtain ex post where
      rest: "rest = ?pre @ CallbackSet ?n # ex # restore_events callback ?n @ post"
      and ex: "(ex = EvalDefault ?c ?n \<and> post = []) \<or>
           (\<exists>code ann. ex = EvalCustom ?c code ann ?n \<and> post = [ClearFrame ?c])"
      by auto
    show "restored_after_lookup callback ?I"
      unfolding I rest using RB N ex by (auto simp: restore_events_def)
  qed
  show ?thesis
    using first second by (rule conjI)
qed

theorem lookup_runs_under_disabled_callback_witness:
  "reaches_lookup example_frame False (PyObj 1)
     (example_world_cached \<lparr>cur_action = RUN_ONLY, recursive_action = RUN_ONLY\<rparr>) \<and>
   \<not> exits_by_failure (example_env\<lparr>lookup := example_lookup_hit\<rparr>) example_frame False
     (PyObj 1) (example_world_cached \<lparr>cur_action = RUN_ONLY, recursive_action = RUN_ONLY\<rparr>) \<and>
   nested_callback (example_env\<lparr>lookup := example_lookup_hit\<rparr>) example_frame False
     (PyObj 1) (example_world_cached \<lparr>cur_action = RUN_ONLY, recursive_action = RUN_ONLY\<rparr>) =
     Py_False \<and>
   eval_frame_callback (snd (dynamo__custom_eval_frame
     (example_env\<lparr>lookup := example_lookup_hit\<rparr>) example_frame False (PyObj 1)
     (example_world_cached \<lparr>cur_action = RUN_ONLY, recursive_action = RUN_ONLY\<rparr>))) =
     PyObj 1 \<and>
   (\<exists>ex post. events (snd (dynamo__custom_eval_frame
     (example_env\<lparr>lookup := example_lookup_hit\<rparr>) example_frame False (PyObj 1)
     (example_world_cached \<lparr>cur_action = RUN_ONLY, recursive_action = RUN_ONLY\<rparr>))) =
       CallbackSet Py_None # Lookup 0 Py_None # CallbackSet Py_False # ex #
       CallbackSet (PyObj 1) # post \<and>
     exec_callbacks [ex] = [Py_False]) \<and>
   restored_after_lookup (PyObj 1)
     (invocation_events (example_env\<lparr>lookup := example_lookup_hit\<rparr>) example_frame False
        (PyObj 1) (example_world_cached \<lparr>cur_action = DEFAULT, recursive_action = DEFAULT\<rparr>))"
proof -
  let ?en = "example_env\<lparr>lookup := example_lookup_hit\<rparr>"
  let ?w = "example_world_cached \<lparr>cur_action = RUN_ONLY, recursive_action = RUN_ONLY\<rparr>"
  let ?v = "example_world_cached \<lparr>cur_action = DEFAULT, recursive_action = DEFAULT\<rparr>"
  have x: "current_extra example_frame (example_world_cached s) =
      \<lparr>cache_entry_list = [example_entry], frame_state = [], strategy = s\<rparr>"
    "get_extra_state (f_code example_frame) (example_world_cached s) =
      Some \<lparr>cache_entry_list = [example_entry], frame_state = [], strategy = s\<rparr>" for s
    by (simp_all add: current_extra_def get_extra_state_def example_frame_def
        example_world_cached_def)
  have l: "lookup_result ?en example_frame (PyObj 1) (example_world_cached s) =
      (Some (PyObj 6), ''compiled'')" for s
    using x(1)[of s] by (simp add: lookup_result_def example_lookup_hit_def example_entry_def)
  have h: "reaches_lookup example_frame False (PyObj 1) ?w"
    "reaches_lookup example_frame False (PyObj 1) ?v"
    using x[of "\<lparr>cur_action = RUN_ONLY, recursive_action = RUN_ONLY\<rparr>"]
      x[of "\<lparr>cur_action = DEFAULT, recursive_action = DEFAULT\<rparr>"]
    by (simp_all add: reaches_lookup_def)
  have f: "\<not> exits_by_failure ?en example_frame False (PyObj 1) (example_world_cached s)" for s
    using l[of s] by (simp add: exits_by_failure_def)
  have b: "\<not> reaches_callback ?en example_frame False (PyObj 1) (example_world_cached s)" for s
    using l[of s] by (simp add: reaches_callback_iff)
  have n: "nested_callback ?en example_frame False (PyObj 1) ?w = Py_False"
    "nested_callback ?en example_frame False (PyObj 1) ?v = PyObj 1"
    using b[of "\<lparr>cur_action = RUN_ONLY, recursive_action = RUN_ONLY\<rparr>"]
      b[of "\<lparr>cur_action = DEFAULT, recursive_action = DEFAULT\<rparr>"]
      x(1)[of "\<lparr>cur_action = RUN_ONLY, recursive_action = RUN_ONLY\<rparr>"]
      x(1)[of "\<lparr>cur_action = DEFAULT, recursive_action = DEFAULT\<rparr>"]
    by (simp_all add: nested_callback_def recursive_callback_of_def)
  have e: "events (example_world_cached s) = []" "f_code example_frame = 0" for s
    by (simp_all add: example_defs)
  have one: "eval_frame_callback (snd (dynamo__custom_eval_frame ?en example_frame False
        (PyObj 1) ?w)) = PyObj 1 \<and>
      (\<exists>ex post. events (snd (dynamo__custom_eval_frame ?en example_frame False
        (PyObj 1) ?w)) =
          CallbackSet Py_None # Lookup 0 Py_None # CallbackSet Py_False # ex #
          CallbackSet (PyObj 1) # post \<and>
        exec_callbacks [ex] = [Py_False])"
    using lookup_runs_under_disabled_callback[OF h(1) prod.collapse[symmetric], of ?en]
      f[of "\<lparr>cur_action = RUN_ONLY, recursive_action = RUN_ONLY\<rparr>"]
      b[of "\<lparr>cur_action = RUN_ONLY, recursive_action = RUN_ONLY\<rparr>"] n(1) e
    by (auto simp: restore_events_def)
  have two: "restored_after_lookup (PyObj 1)
      (invocation_events ?en example_frame False (PyObj 1) ?v)"
    using lookup_runs_under_disabled_callback[OF h(2) prod.collapse[symmetric], of ?en]
      f[of "\<lparr>cur_action = DEFAULT, recursive_action = DEFAULT\<rparr>"]
      b[of "\<lparr>cur_action = DEFAULT, recursive_action = DEFAULT\<rparr>"] n(2)
    by auto
  show ?thesis
    using h(1)
      f[of "\<lparr>cur_action = RUN_ONLY, recursive_action = RUN_ONLY\<rparr>"] n(1) one two
    by simp
qed

end
